theory Spec2Isabelle
  imports Complex_Main
begin

section \<open>Shared vocabulary: errors, time, machine integers\<close>

text \<open>
  The error values of package \<open>main\<close> that the modelled methods return
  (\<open>sim.go\<close>, lines 20-31, and the two used by \<open>vatsim-server.go\<close>).
\<close>

datatype error =
    ErrNoAircraftForCallsign
  | ErrOtherControllerHasTrack
  | ErrNotBeingHandedOffToMe
  | ErrNoController
  | ErrNotController
  | ErrScratchpadTooLong

text \<open>
  A method either returns an error value (the state is then the one it was called on:
  every modelled error return precedes the first mutation), or it dereferences a nil
  pointer and panics.
\<close>

datatype failure = Error error | NilPanic

text \<open>
  \<open>time.Time\<close> is an instant and \<open>time.Duration\<close> a signed 64-bit count of
  nanoseconds. Instants are integers: nanoseconds since the zero \<open>Time\<close>, so that
  \<open>time.Time{}\<close> is 0. Go's \<open>int\<close> and \<open>Duration\<close> arithmetic wraps at
  64 bits, which \<open>wrap64\<close> writes out.
\<close>

definition wrap64 :: "int \<Rightarrow> int" where
  "wrap64 x = (x + 2 ^ 63) mod 2 ^ 64 - 2 ^ 63"

definition Second :: int where
  "Second = 1000000000"

definition Minute :: int where
  "Minute = 60 * Second"

text \<open>
  \<open>float32\<close> to \<open>int\<close>, for a value within the range of \<open>int\<close>: the fraction is
  discarded (truncation towards zero).
\<close>

definition go_int :: "rat \<Rightarrow> int" where
  "go_int x = (if 0 \<le> x then \<lfloor>x\<rfloor> else \<lceil>x\<rceil>)"

section \<open>The local simulation (sim.go)\<close>

text \<open>
  The fields of \<open>Aircraft\<close>, \<open>FlightPlan\<close>, \<open>Controller\<close> and \<open>Scenario\<close> that the
  modelled methods read or write. \<open>Heading\<close> is a \<open>float32\<close>; its finite values are
  rationals. \<open>FlightPlan\<close> is a pointer field, \<open>None\<close> when nil.
\<close>

record FlightPlan =
  Altitude :: int

record Aircraft =
  TrackingController :: string
  OutboundHandoffController :: string
  InboundHandoffController :: string
  Scratchpad :: string
  FlightPlan :: "FlightPlan option"
  Heading :: rat
  AssignedAltitude :: int
  AssignedHeading :: int
  TurnDirection :: int
  ClearedApproach :: bool

record Controller =
  ctrl_Callsign :: string
  ctrl_SectorId :: string

record Scenario =
  Callsign :: string
  Controllers :: "string list"

text \<open>
  What the methods publish: events posted on \<open>eventStream\<close> (an aircraft pointer is
  named by its registry key; a formatted message by its format and arguments), the
  sounds played, and the lines logged by \<open>pilotResponse\<close>.
\<close>

datatype Event =
    ModifiedAircraftEvent string
  | InitiatedTrackEvent string
  | DroppedTrackEvent string
  | AcceptedHandoffEvent string string
  | RemovedAircraftEvent string
  | RadioTransmissionEvent string string "int list"

datatype AudioEvent = AudioEventHandoffAccepted

text \<open>
  The simulation state. \<open>Scenario\<close> is a pointer (\<open>None\<close> when nil). The
  package-level variables the methods touch travel with it: \<open>eventStream\<close> (the
  events posted so far, oldest first), \<open>audio\<close> (sounds played), \<open>lg\<close> (log lines)
  and \<open>ControlPositions\<close> of \<open>scenarioGroup\<close>, a Go map held as the list of its
  entries in the order a \<open>range\<close> loop visits them.
\<close>

record Sim =
  Scenario :: "Scenario option"
  Aircraft :: "string \<rightharpoonup> Aircraft"
  Handoffs :: "string \<rightharpoonup> int"
  currentTime :: int
  eventStream :: "Event list"
  audio :: "AudioEvent list"
  lg :: "(string \<times> string \<times> int list) list"
  ControlPositions :: "(string \<times> Controller) list"

definition Post :: "Event \<Rightarrow> Sim \<Rightarrow> Sim" where
  "Post ev sim = sim\<lparr>eventStream := eventStream sim @ [ev]\<rparr>"

definition PlaySound :: "AudioEvent \<Rightarrow> Sim \<Rightarrow> Sim" where
  "PlaySound a sim = sim\<lparr>audio := audio sim @ [a]\<rparr>"

definition pilotResponse :: "string \<Rightarrow> string \<Rightarrow> int list \<Rightarrow> Sim \<Rightarrow> Sim" where
  "pilotResponse callsign fm args sim =
     Post (RadioTransmissionEvent callsign fm args)
       (sim\<lparr>lg := lg sim @ [(callsign, fm, args)]\<rparr>)"

definition Sim_CurrentTime :: "Sim \<Rightarrow> int" where
  "Sim_CurrentTime sim = currentTime sim"

definition Sim_GetController :: "Sim \<Rightarrow> string \<Rightarrow> Controller option" where
  "Sim_GetController sim callsign =
     (case Scenario sim of
        None \<Rightarrow> None
      | Some sc \<Rightarrow>
          (case map_of (ControlPositions sim) callsign of
             Some ctrl \<Rightarrow> Some ctrl
           | None \<Rightarrow>
               find (\<lambda>c. ctrl_SectorId c = callsign \<and> ctrl_Callsign c \<in> set (Controllers sc))
                 (map snd (ControlPositions sim))))"

definition Sim_SetScratchpad :: "Sim \<Rightarrow> string \<Rightarrow> string \<Rightarrow> failure + Sim" where
  "Sim_SetScratchpad sim callsign scratchpad =
     (case Aircraft sim callsign of
        None \<Rightarrow> Inl (Error ErrNoAircraftForCallsign)
      | Some ac \<Rightarrow>
          (case Scenario sim of
             None \<Rightarrow> Inl NilPanic
           | Some sc \<Rightarrow>
               if TrackingController ac \<noteq> Callsign sc then Inl (Error ErrOtherControllerHasTrack)
               else Inr (Post (ModifiedAircraftEvent callsign)
                      (sim\<lparr>Aircraft := (Aircraft sim)(callsign \<mapsto> ac\<lparr>Scratchpad := scratchpad\<rparr>)\<rparr>))))"

definition Sim_InitiateTrack :: "Sim \<Rightarrow> string \<Rightarrow> failure + Sim" where
  "Sim_InitiateTrack sim callsign =
     (case Aircraft sim callsign of
        None \<Rightarrow> Inl (Error ErrNoAircraftForCallsign)
      | Some ac \<Rightarrow>
          if TrackingController ac \<noteq> [] then Inl (Error ErrOtherControllerHasTrack)
          else
            (case Scenario sim of
               None \<Rightarrow> Inl NilPanic
             | Some sc \<Rightarrow>
                 Inr (Post (InitiatedTrackEvent callsign)
                   (Post (ModifiedAircraftEvent callsign)
                     (sim\<lparr>Aircraft :=
                        (Aircraft sim)(callsign \<mapsto> ac\<lparr>TrackingController := Callsign sc\<rparr>)\<rparr>)))))"

definition Sim_DropTrack :: "Sim \<Rightarrow> string \<Rightarrow> failure + Sim" where
  "Sim_DropTrack sim callsign =
     (case Aircraft sim callsign of
        None \<Rightarrow> Inl (Error ErrNoAircraftForCallsign)
      | Some ac \<Rightarrow>
          (case Scenario sim of
             None \<Rightarrow> Inl NilPanic
           | Some sc \<Rightarrow>
               if TrackingController ac \<noteq> Callsign sc then Inl (Error ErrOtherControllerHasTrack)
               else Inr (Post (DroppedTrackEvent callsign)
                      (Post (ModifiedAircraftEvent callsign)
                        (sim\<lparr>Aircraft :=
                           (Aircraft sim)(callsign \<mapsto> ac\<lparr>TrackingController := []\<rparr>)\<rparr>)))))"

text \<open>
  \<open>Sim.Handoff\<close> draws \<open>rand.Intn(10)\<close>; the draw is the argument \<open>r\<close>
  (\<open>Intn(n)\<close> returns an integer \<open>0 \<le> r < n\<close>).
\<close>

definition Sim_Handoff :: "Sim \<Rightarrow> string \<Rightarrow> string \<Rightarrow> int \<Rightarrow> failure + Sim" where
  "Sim_Handoff sim callsign controller r =
     (case Aircraft sim callsign of
        None \<Rightarrow> Inl (Error ErrNoAircraftForCallsign)
      | Some ac \<Rightarrow>
          (case Scenario sim of
             None \<Rightarrow> Inl NilPanic
           | Some sc \<Rightarrow>
               if TrackingController ac \<noteq> Callsign sc then Inl (Error ErrOtherControllerHasTrack)
               else
                 (case Sim_GetController sim controller of
                    None \<Rightarrow> Inl (Error ErrNoController)
                  | Some ctrl \<Rightarrow>
                      let sim1 = Post (ModifiedAircraftEvent callsign)
                            (sim\<lparr>Aircraft := (Aircraft sim)(callsign \<mapsto>
                               ac\<lparr>OutboundHandoffController := ctrl_Callsign ctrl\<rparr>)\<rparr>);
                          acceptDelay = wrap64 (2 + r)
                      in Inr (sim1\<lparr>Handoffs := (Handoffs sim1)(callsign \<mapsto>
                               Sim_CurrentTime sim1 + wrap64 (acceptDelay * Second))\<rparr>))))"

definition Sim_CancelHandoff :: "Sim \<Rightarrow> string \<Rightarrow> failure + Sim" where
  "Sim_CancelHandoff sim callsign =
     (case Aircraft sim callsign of
        None \<Rightarrow> Inl (Error ErrNoAircraftForCallsign)
      | Some ac \<Rightarrow>
          (case Scenario sim of
             None \<Rightarrow> Inl NilPanic
           | Some sc \<Rightarrow>
               if TrackingController ac \<noteq> Callsign sc then Inl (Error ErrOtherControllerHasTrack)
               else Inr (Post (ModifiedAircraftEvent callsign)
                      (sim\<lparr>Aircraft := (Aircraft sim)(callsign \<mapsto>
                         ac\<lparr>OutboundHandoffController := []\<rparr>)\<rparr>))))"

definition Sim_AcceptHandoff :: "Sim \<Rightarrow> string \<Rightarrow> failure + Sim" where
  "Sim_AcceptHandoff sim callsign =
     (case Aircraft sim callsign of
        None \<Rightarrow> Inl (Error ErrNoAircraftForCallsign)
      | Some ac \<Rightarrow>
          (case Scenario sim of
             None \<Rightarrow> Inl NilPanic
           | Some sc \<Rightarrow>
               if InboundHandoffController ac \<noteq> Callsign sc then Inl (Error ErrNotBeingHandedOffToMe)
               else Inr (Post (ModifiedAircraftEvent callsign)
                      (Post (AcceptedHandoffEvent (Callsign sc) callsign)
                        (sim\<lparr>Aircraft := (Aircraft sim)(callsign \<mapsto>
                           ac\<lparr>InboundHandoffController := [],
                              TrackingController := Callsign sc\<rparr>)\<rparr>)))))"

definition Sim_DeleteAircraft :: "Sim \<Rightarrow> string \<Rightarrow> failure + Sim" where
  "Sim_DeleteAircraft sim callsign =
     (case Aircraft sim callsign of
        None \<Rightarrow> Inl (Error ErrNoAircraftForCallsign)
      | Some ac \<Rightarrow>
          let sim1 = Post (RemovedAircraftEvent callsign) sim
          in Inr (sim1\<lparr>Aircraft := (Aircraft sim1)(callsign := None)\<rparr>))"

subsection \<open>Handoff expiry: the first loop of \<open>Sim.updateState\<close>\<close>

text \<open>
  One iteration of \<open>for callsign, t := range sim.Handoffs\<close> (lines 699-712), for the
  entry \<open>callsign\<close>. An iteration deletes only its own entry, so each entry present
  at the start is visited once and read as it was. \<open>ac.FlightPlan.Altitude\<close> panics on
  a nil flight plan.
\<close>

definition acceptHandoff :: "int \<Rightarrow> string \<Rightarrow> Sim \<Rightarrow> failure + Sim" where
  "acceptHandoff now callsign sim =
     (case Handoffs sim callsign of
        None \<Rightarrow> Inr sim
      | Some t \<Rightarrow>
          if now > t then
            (case Aircraft sim callsign of
               None \<Rightarrow> Inr (sim\<lparr>Handoffs := (Handoffs sim)(callsign := None)\<rparr>)
             | Some ac \<Rightarrow>
                 let ac1 = ac\<lparr>TrackingController := OutboundHandoffController ac,
                              OutboundHandoffController := []\<rparr>;
                     sim1 = PlaySound AudioEventHandoffAccepted
                              (Post (AcceptedHandoffEvent (TrackingController ac1) callsign) sim)
                 in (case FlightPlan ac1 of
                       None \<Rightarrow> Inl NilPanic
                     | Some fp \<Rightarrow>
                         Inr (sim1\<lparr>Aircraft := (Aircraft sim1)(callsign \<mapsto>
                                      ac1\<lparr>AssignedAltitude := Altitude fp\<rparr>),
                                   Handoffs := (Handoffs sim1)(callsign := None)\<rparr>)))
          else Inr sim)"

text \<open>
  The loop, over the keys of \<open>sim.Handoffs\<close> in the order \<open>ks\<close> in which the
  \<open>range\<close> statement happens to visit them (Go leaves the order open).
\<close>

fun acceptHandoffs :: "int \<Rightarrow> string list \<Rightarrow> Sim \<Rightarrow> failure + Sim" where
  "acceptHandoffs now [] sim = Inr sim"
| "acceptHandoffs now (callsign # ks) sim =
     (case acceptHandoff now callsign sim of
        Inl e \<Rightarrow> Inl e
      | Inr sim1 \<Rightarrow> acceptHandoffs now ks sim1)"

definition updateState_handoffs :: "string list \<Rightarrow> Sim \<Rightarrow> failure + Sim" where
  "updateState_handoffs ks sim = acceptHandoffs (Sim_CurrentTime sim) ks sim"

subsection \<open>What the expiry loop amounts to\<close>

text \<open>
  A handoff record is due once the current time is after its deadline; accepting a
  due handoff hands the track to the outbound handoff controller and sends the
  aircraft to its filed altitude.
\<close>

definition due :: "int \<Rightarrow> Sim \<Rightarrow> string \<Rightarrow> bool" where
  "due now sim cs = (case Handoffs sim cs of Some t \<Rightarrow> now > t | None \<Rightarrow> False)"

definition accepted :: "Aircraft \<Rightarrow> Aircraft" where
  "accepted ac = ac\<lparr>TrackingController := OutboundHandoffController ac,
                     OutboundHandoffController := [],
                     AssignedAltitude := (case FlightPlan ac of Some fp \<Rightarrow> Altitude fp | None \<Rightarrow> 0)\<rparr>"

definition acceptances :: "int \<Rightarrow> Sim \<Rightarrow> string list \<Rightarrow> string list" where
  "acceptances now sim ks = filter (\<lambda>cs. due now sim cs \<and> Aircraft sim cs \<noteq> None) ks"

definition acceptedEvent :: "Sim \<Rightarrow> string \<Rightarrow> Event" where
  "acceptedEvent sim cs =
     AcceptedHandoffEvent (case Aircraft sim cs of Some ac \<Rightarrow> OutboundHandoffController ac | None \<Rightarrow> []) cs"

subsection \<open>Heading instructions\<close>

definition AssignHeading :: "Sim \<Rightarrow> string \<Rightarrow> int \<Rightarrow> int \<Rightarrow> failure + Sim" where
  "AssignHeading sim callsign heading turn =
     (case Aircraft sim callsign of
        None \<Rightarrow> Inl (Error ErrNoAircraftForCallsign)
      | Some ac \<Rightarrow>
          let sim1 = (if turn > 0 then pilotResponse callsign ''turn right heading %d'' [heading] sim
                      else if turn = 0 then pilotResponse callsign ''fly heading %d'' [heading] sim
                      else pilotResponse callsign ''turn left heading %d'' [heading] sim);
              heading1 = (if heading = 0 then 360 else heading)
          in Inr (sim1\<lparr>Aircraft := (Aircraft sim1)(callsign \<mapsto>
                    ac\<lparr>AssignedHeading := heading1, TurnDirection := turn,
                       ClearedApproach := False\<rparr>)\<rparr>))"

definition TurnLeft :: "Sim \<Rightarrow> string \<Rightarrow> int \<Rightarrow> failure + Sim" where
  "TurnLeft sim callsign deg =
     (case Aircraft sim callsign of
        None \<Rightarrow> Inl (Error ErrNoAircraftForCallsign)
      | Some ac \<Rightarrow>
          let sim1 = pilotResponse callsign ''turn %d degrees left'' [deg] sim;
              h1 = (if AssignedHeading ac = 0 then wrap64 (go_int (Heading ac) - deg)
                    else wrap64 (AssignedHeading ac - deg));
              h2 = (if h1 \<le> 0 then wrap64 (h1 + 360) else h1)
          in Inr (sim1\<lparr>Aircraft := (Aircraft sim1)(callsign \<mapsto>
                    ac\<lparr>AssignedHeading := h2, TurnDirection := 0,
                       ClearedApproach := False\<rparr>)\<rparr>))"

definition TurnRight :: "Sim \<Rightarrow> string \<Rightarrow> int \<Rightarrow> failure + Sim" where
  "TurnRight sim callsign deg =
     (case Aircraft sim callsign of
        None \<Rightarrow> Inl (Error ErrNoAircraftForCallsign)
      | Some ac \<Rightarrow>
          let sim1 = pilotResponse callsign ''turn %d degrees right'' [deg] sim;
              h1 = (if AssignedHeading ac = 0 then wrap64 (go_int (Heading ac) + deg)
                    else wrap64 (AssignedHeading ac + deg));
              h2 = (if h1 > 360 then wrap64 (h1 - 360) else h1)
          in Inr (sim1\<lparr>Aircraft := (Aircraft sim1)(callsign \<mapsto>
                    ac\<lparr>AssignedHeading := h2, TurnDirection := 0,
                       ClearedApproach := False\<rparr>)\<rparr>))"

text \<open>
  The heading a turn by degrees starts from: the assigned heading, or the current
  heading (truncated to an integer) when none is assigned.
\<close>

definition turn_from :: "Aircraft \<Rightarrow> int" where
  "turn_from ac = (if AssignedHeading ac = 0 then go_int (Heading ac) else AssignedHeading ac)"

section \<open>The network protocol adapter (vatsim-server.go)\<close>

text \<open>
  \<open>vatsim-server.go\<close> reads and writes the unexported fields of an aircraft:
  \<open>scratchpad\<close> and the time of its most recent radar track, \<open>tracks[0].time\<close>.
\<close>

record VATSIMAircraft =
  scratchpad :: string
  tracks0_time :: int

text \<open>
  \<open>VATSIMConnection\<close> is an interface value, nil when the session is closed. The
  model holds what its methods return during one update: the contents of the
  messages of \<open>GetMessages()\<close>, in order, and \<open>CurrentTime()\<close>.
\<close>

record VATSIMConnection =
  GetMessages :: "string list"
  conn_CurrentTime :: int

text \<open>
  What the adapter hands to its collaborators: the entries it makes in
  \<open>controlUpdates\<close>, the commands it forwards to \<open>controlDelegate\<close>, and the lines
  it logs.
\<close>

datatype ControlUpdate = modifiedAircraft string | RemoveAircraft string

datatype DelegateCall =
    Delegate_SetScratchpad string string
  | Delegate_InitiateTrack string
  | Delegate_DropTrack string
  | Delegate_Handoff string string
  | Delegate_AcceptHandoff string

datatype LogLine =
    EmptyMessage
  | EmptyFirstField string
  | Received string
  | FSDMessageError string string
  | NoRuleMatched string

record VATSIMServer =
  callsign :: string
  connection :: "VATSIMConnection option"
  aircraft :: "string \<rightharpoonup> VATSIMAircraft"
  controllers :: "string \<rightharpoonup> Controller"
  trackingControllers :: "string \<rightharpoonup> string"
  outboundHandoffs :: "string \<rightharpoonup> string"
  inboundHandoffs :: "string \<rightharpoonup> string"
  atcValid :: bool
  controlUpdates :: "ControlUpdate list"
  controlDelegate :: "DelegateCall list"
  vlg :: "LogLine list"

definition GetAircraft :: "VATSIMServer \<Rightarrow> string \<Rightarrow> VATSIMAircraft option" where
  "GetAircraft v cs = aircraft v cs"

definition VATSIMServer_GetController :: "VATSIMServer \<Rightarrow> string \<Rightarrow> Controller option" where
  "VATSIMServer_GetController v cs = controllers v cs"

definition GetTrackingController :: "VATSIMServer \<Rightarrow> string \<Rightarrow> string" where
  "GetTrackingController v cs = (case trackingControllers v cs of Some tc \<Rightarrow> tc | None \<Rightarrow> [])"

definition InboundHandoffController_of :: "VATSIMServer \<Rightarrow> string \<Rightarrow> string" where
  "InboundHandoffController_of v cs = (case inboundHandoffs v cs of Some c \<Rightarrow> c | None \<Rightarrow> [])"

definition OutboundHandoffController_of :: "VATSIMServer \<Rightarrow> string \<Rightarrow> string" where
  "OutboundHandoffController_of v cs = (case outboundHandoffs v cs of Some c \<Rightarrow> c | None \<Rightarrow> [])"

definition trackedByAnotherController :: "VATSIMServer \<Rightarrow> string \<Rightarrow> bool" where
  "trackedByAnotherController v cs =
     (case trackingControllers v cs of Some c \<Rightarrow> c \<noteq> callsign v | None \<Rightarrow> False)"

definition modified :: "string \<Rightarrow> VATSIMServer \<Rightarrow> VATSIMServer" where
  "modified cs v = v\<lparr>controlUpdates := controlUpdates v @ [modifiedAircraft cs]\<rparr>"

definition delegate :: "DelegateCall \<Rightarrow> VATSIMServer \<Rightarrow> VATSIMServer" where
  "delegate c v = v\<lparr>controlDelegate := controlDelegate v @ [c]\<rparr>"

definition VATSIMServer_SetScratchpad :: "VATSIMServer \<Rightarrow> string \<Rightarrow> string \<Rightarrow> failure + VATSIMServer" where
  "VATSIMServer_SetScratchpad v cs sp =
     (if \<not> atcValid v then Inl (Error ErrNotController)
      else case GetAircraft v cs of
        None \<Rightarrow> Inl (Error ErrNoAircraftForCallsign)
      | Some ac \<Rightarrow>
          if trackedByAnotherController v cs then Inl (Error ErrOtherControllerHasTrack)
          else if length sp > 3 then Inl (Error ErrScratchpadTooLong)
          else Inr (delegate (Delegate_SetScratchpad cs sp)
                 (modified cs (v\<lparr>aircraft := (aircraft v)(cs \<mapsto> ac\<lparr>scratchpad := sp\<rparr>)\<rparr>))))"

definition VATSIMServer_InitiateTrack :: "VATSIMServer \<Rightarrow> string \<Rightarrow> failure + VATSIMServer" where
  "VATSIMServer_InitiateTrack v cs =
     (if \<not> atcValid v then Inl (Error ErrNotController)
      else case GetAircraft v cs of
        None \<Rightarrow> Inl (Error ErrNoAircraftForCallsign)
      | Some ac \<Rightarrow>
          if trackedByAnotherController v cs then Inl (Error ErrOtherControllerHasTrack)
          else Inr (delegate (Delegate_InitiateTrack cs)
                 (modified cs (v\<lparr>trackingControllers := (trackingControllers v)(cs \<mapsto> callsign v)\<rparr>))))"

definition VATSIMServer_DropTrack :: "VATSIMServer \<Rightarrow> string \<Rightarrow> failure + VATSIMServer" where
  "VATSIMServer_DropTrack v cs =
     (if \<not> atcValid v then Inl (Error ErrNotController)
      else case GetAircraft v cs of
        None \<Rightarrow> Inl (Error ErrNoAircraftForCallsign)
      | Some ac \<Rightarrow>
          if trackedByAnotherController v cs then Inl (Error ErrOtherControllerHasTrack)
          else Inr (delegate (Delegate_DropTrack cs)
                 (modified cs (v\<lparr>trackingControllers := (trackingControllers v)(cs := None)\<rparr>))))"

definition VATSIMServer_Handoff :: "VATSIMServer \<Rightarrow> string \<Rightarrow> string \<Rightarrow> failure + VATSIMServer" where
  "VATSIMServer_Handoff v cs controller =
     (if \<not> atcValid v then Inl (Error ErrNotController)
      else case GetAircraft v cs of
        None \<Rightarrow> Inl (Error ErrNoAircraftForCallsign)
      | Some ac \<Rightarrow>
          if trackedByAnotherController v cs then Inl (Error ErrOtherControllerHasTrack)
          else
            (case VATSIMServer_GetController v controller of
               None \<Rightarrow> Inl (Error ErrNoController)
             | Some c \<Rightarrow>
                 Inr (delegate (Delegate_Handoff cs controller)
                   (modified cs (v\<lparr>outboundHandoffs := (outboundHandoffs v)(cs \<mapsto> controller)\<rparr>)))))"

definition VATSIMServer_AcceptHandoff :: "VATSIMServer \<Rightarrow> string \<Rightarrow> failure + VATSIMServer" where
  "VATSIMServer_AcceptHandoff v cs =
     (if \<not> atcValid v then Inl (Error ErrNotController)
      else case GetAircraft v cs of
        None \<Rightarrow> Inl (Error ErrNoAircraftForCallsign)
      | Some ac \<Rightarrow>
          (case inboundHandoffs v cs of
             None \<Rightarrow> Inl (Error ErrNotBeingHandedOffToMe)
           | Some offering \<Rightarrow>
               let v1 = delegate (Delegate_AcceptHandoff cs)
                          (modified cs (v\<lparr>trackingControllers :=
                             (trackingControllers v)(cs \<mapsto> callsign v)\<rparr>))
               in Inr (v1\<lparr>inboundHandoffs := (inboundHandoffs v1)(cs := None)\<rparr>)))"

subsection \<open>Splitting a protocol line\<close>

text \<open>
  \<open>strings.TrimSpace\<close> removes leading and trailing white space as Unicode defines it.
  A Go string is a sequence of bytes holding UTF-8; the white space characters are the
  code points U+0009 to U+000D, U+0020, U+0085, U+00A0, U+1680, U+2000 to U+200A,
  U+2028, U+2029, U+202F, U+205F and U+3000, listed here by their encodings.
\<close>

definition white_space :: "string list" where
  "white_space =
     [[CHR 0x09], [CHR 0x0A], [CHR 0x0B], [CHR 0x0C], [CHR 0x0D], [CHR 0x20],
      [CHR 0xC2, CHR 0x85], [CHR 0xC2, CHR 0xA0], [CHR 0xE1, CHR 0x9A, CHR 0x80],
      [CHR 0xE2, CHR 0x80, CHR 0x80], [CHR 0xE2, CHR 0x80, CHR 0x81],
      [CHR 0xE2, CHR 0x80, CHR 0x82], [CHR 0xE2, CHR 0x80, CHR 0x83],
      [CHR 0xE2, CHR 0x80, CHR 0x84], [CHR 0xE2, CHR 0x80, CHR 0x85],
      [CHR 0xE2, CHR 0x80, CHR 0x86], [CHR 0xE2, CHR 0x80, CHR 0x87],
      [CHR 0xE2, CHR 0x80, CHR 0x88], [CHR 0xE2, CHR 0x80, CHR 0x89],
      [CHR 0xE2, CHR 0x80, CHR 0x8A], [CHR 0xE2, CHR 0x80, CHR 0xA8],
      [CHR 0xE2, CHR 0x80, CHR 0xA9], [CHR 0xE2, CHR 0x80, CHR 0xAF],
      [CHR 0xE2, CHR 0x81, CHR 0x9F], [CHR 0xE3, CHR 0x80, CHR 0x80]]"

text \<open>Remove, as long as there is one, a leading occurrence of one of the sequences \<open>qs\<close>.\<close>

function stripLeading :: "string list \<Rightarrow> string \<Rightarrow> string" where
  "stripLeading qs s =
     (case find (\<lambda>q. q \<noteq> [] \<and> take (length q) s = q) qs of
        None \<Rightarrow> s
      | Some q \<Rightarrow> stripLeading qs (drop (length q) s))"
  by pat_completeness auto
termination
proof (relation "measure (\<lambda>(qs, s). length s)")
  show "wf (measure (\<lambda>(qs, s). length s))"
    by simp
next
  fix qs :: "string list" and s q :: string
  assume "find (\<lambda>q. q \<noteq> [] \<and> take (length q) s = q) qs = Some q"
  then have "q \<noteq> []" and "take (length q) s = q"
    by (auto simp: find_Some_iff)
  then have "s \<noteq> []" and "0 < length q"
    by auto
  then show "((qs, drop (length q) s), (qs, s)) \<in> measure (\<lambda>(qs, s). length s)"
    by simp
qed

definition strings_TrimSpace :: "string \<Rightarrow> string" where
  "strings_TrimSpace s =
     rev (stripLeading (map rev white_space) (rev (stripLeading white_space s)))"

text \<open>
  \<open>strings.Split(s, ":")\<close>: the fields between the colons; always at least one field.
\<close>

fun strings_Split :: "string \<Rightarrow> string list" where
  "strings_Split [] = [[]]"
| "strings_Split (c # s) =
     (if c = CHR '':'' then [] # strings_Split s
      else (case strings_Split s of
              f # fs \<Rightarrow> (c # f) # fs
            | [] \<Rightarrow> [[c]]))"

subsection \<open>The message specifications\<close>

text \<open>
  \<open>trackInitiated\<close> (lines 1888-1901), a handler's building block kept in this file.
\<close>

definition trackInitiated :: "VATSIMServer \<Rightarrow> string \<Rightarrow> string \<Rightarrow> string option \<times> VATSIMServer" where
  "trackInitiated v cs controller =
     (case GetAircraft v cs of
        Some ac \<Rightarrow> (None, modified cs (v\<lparr>trackingControllers := (trackingControllers v)(cs \<mapsto> controller)\<rparr>))
      | None \<Rightarrow> (None, v))"

text \<open>
  \<open>VATSIMMessageSpec\<close> is declared outside this file. \<open>GetUpdates\<close> uses its method
  \<open>Match\<close>, from the fields of a line to the sender and the arguments when the line
  matches, and its field \<open>handler\<close>, nil or a function of the server, the sender and
  the arguments that updates the server and returns an error (here its text) or nil.
\<close>

record VATSIMMessageSpec =
  Match :: "string list \<Rightarrow> (string \<times> string list) option"
  handler :: "(VATSIMServer \<Rightarrow> string \<Rightarrow> string list \<Rightarrow> string option \<times> VATSIMServer) option"

definition Printf :: "LogLine \<Rightarrow> VATSIMServer \<Rightarrow> VATSIMServer" where
  "Printf l v = v\<lparr>vlg := vlg v @ [l]\<rparr>"

subsection \<open>\<open>VATSIMServer.GetUpdates\<close>: receiving\<close>

text \<open>
  The loop \<open>for _, spec := range vatsimMessageSpecs\<close> (lines 1772-1781), with its
  counter \<open>matches\<close>.
\<close>

fun matchSpecs ::
    "VATSIMMessageSpec list \<Rightarrow> string list \<Rightarrow> string \<Rightarrow> nat \<Rightarrow> VATSIMServer \<Rightarrow> nat \<times> VATSIMServer" where
  "matchSpecs [] strs contents matches v = (matches, v)"
| "matchSpecs (spec # specs) strs contents matches v =
     (case Match spec strs of
        None \<Rightarrow> matchSpecs specs strs contents matches v
      | Some (sender, args) \<Rightarrow>
          (case handler spec of
             None \<Rightarrow> matchSpecs specs strs contents (matches + 1) v
           | Some h \<Rightarrow>
               (case h v sender args of
                  (None, v1) \<Rightarrow> matchSpecs specs strs contents (matches + 1) v1
                | (Some err, v1) \<Rightarrow>
                    matchSpecs specs strs contents (matches + 1)
                      (Printf (FSDMessageError err contents) v1))))"

text \<open>The body of \<open>for _, msg := range messages\<close> (lines 1757-1784).\<close>

definition receive :: "VATSIMMessageSpec list \<Rightarrow> bool \<Rightarrow> string \<Rightarrow> VATSIMServer \<Rightarrow> VATSIMServer" where
  "receive specs logTraffic contents v =
     (let strs = strings_Split (strings_TrimSpace contents) in
      if length strs = 0 then Printf EmptyMessage v
      else if length (strs ! 0) = 0 then Printf (EmptyFirstField contents) v
      else
        let v1 = (if logTraffic then Printf (Received contents) v else v);
            (matches, v2) = matchSpecs specs strs contents 0 v1
        in if matches = 0 then Printf (NoRuleMatched contents) v2 else v2)"

fun receiveAll :: "VATSIMMessageSpec list \<Rightarrow> bool \<Rightarrow> string list \<Rightarrow> VATSIMServer \<Rightarrow> VATSIMServer" where
  "receiveAll specs logTraffic [] v = v"
| "receiveAll specs logTraffic (contents # messages) v =
     receiveAll specs logTraffic messages (receive specs logTraffic contents v)"

text \<open>
  The first half of \<open>GetUpdates\<close> (lines 1752-1791): with a connection, the messages
  it hands over are received in order and then \<open>vatsimUpdateCallback\<close>, when not
  nil, is called.
\<close>

definition GetUpdates_receive ::
    "VATSIMMessageSpec list \<Rightarrow> (VATSIMServer \<Rightarrow> VATSIMServer) option \<Rightarrow> bool \<Rightarrow> VATSIMServer \<Rightarrow> VATSIMServer" where
  "GetUpdates_receive specs vatsimUpdateCallback logTraffic v =
     (case connection v of
        None \<Rightarrow> v
      | Some conn \<Rightarrow>
          let v1 = receiveAll specs logTraffic (GetMessages conn) v
          in (case vatsimUpdateCallback of None \<Rightarrow> v1 | Some cb \<Rightarrow> cb v1))"

subsection \<open>\<open>VATSIMServer.GetUpdates\<close>: eviction\<close>

definition VATSIMServer_CurrentTime :: "VATSIMServer \<Rightarrow> int" where
  "VATSIMServer_CurrentTime v = (case connection v of None \<Rightarrow> 0 | Some conn \<Rightarrow> conn_CurrentTime conn)"

text \<open>
  \<open>t.Sub(u)\<close> is the duration \<open>t - u\<close>, or the largest or smallest duration when
  the difference does not fit. \<open>d.Minutes()\<close> is the whole minutes of \<open>d\<close> plus the
  remaining nanoseconds over \<open>60 * 10^9\<close> (quotient and remainder truncate towards
  zero), computed in \<open>float64\<close>; the model computes the same sum exactly. The
  rounding cannot change its comparison with 30: the whole minutes are exact, and a
  non-zero fraction is at least \<open>1 / (6 * 10^10)\<close> away from 0 and from 1, far more
  than the spacing of \<open>float64\<close> near 30.
\<close>

definition Time_Sub :: "int \<Rightarrow> int \<Rightarrow> int" where
  "Time_Sub t u =
     (if t - u > 2 ^ 63 - 1 then 2 ^ 63 - 1 else if t - u < - (2 ^ 63) then - (2 ^ 63) else t - u)"

definition quot_go :: "int \<Rightarrow> int \<Rightarrow> int" where
  "quot_go a b = sgn a * sgn b * (\<bar>a\<bar> div \<bar>b\<bar>)"

definition rem_go :: "int \<Rightarrow> int \<Rightarrow> int" where
  "rem_go a b = a - b * quot_go a b"

definition Duration_Minutes :: "int \<Rightarrow> rat" where
  "Duration_Minutes d = of_int (quot_go d Minute) + of_int (rem_go d Minute) / (60 * 1000000000)"

text \<open>
  One iteration of \<open>for callsign, ac := range v.aircraft\<close> (lines 1795-1804), and
  the loop over the keys \<open>ks\<close> in the order it visits them.
\<close>

definition evict :: "int \<Rightarrow> string \<Rightarrow> VATSIMServer \<Rightarrow> VATSIMServer" where
  "evict now cs v =
     (case aircraft v cs of
        None \<Rightarrow> v
      | Some ac \<Rightarrow>
          if Duration_Minutes (Time_Sub now (tracks0_time ac)) > 30 then
            v\<lparr>aircraft := (aircraft v)(cs := None),
              trackingControllers := (trackingControllers v)(cs := None),
              outboundHandoffs := (outboundHandoffs v)(cs := None),
              inboundHandoffs := (inboundHandoffs v)(cs := None),
              controlUpdates := controlUpdates v @ [RemoveAircraft cs]\<rparr>
          else v)"

fun evictAll :: "int \<Rightarrow> string list \<Rightarrow> VATSIMServer \<Rightarrow> VATSIMServer" where
  "evictAll now [] v = v"
| "evictAll now (cs # ks) v = evictAll now ks (evict now cs v)"

definition VATSIMServer_GetUpdates ::
    "VATSIMMessageSpec list \<Rightarrow> (VATSIMServer \<Rightarrow> VATSIMServer) option \<Rightarrow> bool \<Rightarrow> string list
      \<Rightarrow> VATSIMServer \<Rightarrow> VATSIMServer" where
  "VATSIMServer_GetUpdates specs vatsimUpdateCallback logTraffic ks v =
     (let v1 = GetUpdates_receive specs vatsimUpdateCallback logTraffic v;
          now = VATSIMServer_CurrentTime v1
      in evictAll now ks v1)"

text \<open>
  An aircraft of the registry is stale at \<open>now\<close> when the loop's test holds for it.
\<close>

definition stale :: "int \<Rightarrow> VATSIMServer \<Rightarrow> string \<Rightarrow> bool" where
  "stale now v cs =
     (case aircraft v cs of
        Some ac \<Rightarrow> Duration_Minutes (Time_Sub now (tracks0_time ac)) > 30
      | None \<Rightarrow> False)"

subsection \<open>What receiving a line amounts to\<close>

text \<open>
  The dispatch as the specification words it. A line is malformed when its first
  colon-delimited field is empty (the empty line is one such). The specifications
  that match a line are taken in table order and the handler of each of them is
  applied, a handler's error being logged; a line that none matches is logged as
  unrecognised; a malformed line is logged and skipped.
\<close>

definition malformed :: "string \<Rightarrow> bool" where
  "malformed contents \<longleftrightarrow> hd (strings_Split (strings_TrimSpace contents)) = []"

definition matching :: "VATSIMMessageSpec list \<Rightarrow> string list \<Rightarrow> VATSIMMessageSpec list" where
  "matching specs strs = filter (\<lambda>spec. Match spec strs \<noteq> None) specs"

definition invoke :: "string \<Rightarrow> string list \<Rightarrow> VATSIMServer \<Rightarrow> VATSIMMessageSpec \<Rightarrow> VATSIMServer" where
  "invoke contents strs v spec =
     (case Match spec strs of
        None \<Rightarrow> v
      | Some (sender, args) \<Rightarrow>
          (case handler spec of
             None \<Rightarrow> v
           | Some h \<Rightarrow>
               (case h v sender args of
                  (None, v') \<Rightarrow> v'
                | (Some err, v') \<Rightarrow> Printf (FSDMessageError err contents) v')))"

definition dispatch :: "VATSIMMessageSpec list \<Rightarrow> bool \<Rightarrow> VATSIMServer \<Rightarrow> string \<Rightarrow> VATSIMServer" where
  "dispatch specs logTraffic v contents =
     (if malformed contents then Printf (EmptyFirstField contents) v
      else
        let strs = strings_Split (strings_TrimSpace contents);
            applied = foldl (invoke contents strs)
                        (if logTraffic then Printf (Received contents) v else v)
                        (matching specs strs)
        in if matching specs strs = [] then Printf (NoRuleMatched contents) applied else applied)"

section \<open>The two implementations side by side\<close>

text \<open>
  A controller name of the simulation is the empty string when there is none; the
  adapter's maps then have no entry. A simulation and an adapter are in the same state
  when they act for the same callsign and, callsign by callsign, hold an aircraft or
  none on both sides with the same tracking controller, outbound and inbound handoff
  controller and scratchpad.
\<close>

definition opt_name :: "string \<Rightarrow> string option" where
  "opt_name s = (if s = [] then None else Some s)"

definition same_aircraft :: "VATSIMServer \<Rightarrow> string \<Rightarrow> Aircraft \<Rightarrow> VATSIMAircraft \<Rightarrow> bool" where
  "same_aircraft v cs ac vac \<longleftrightarrow>
     trackingControllers v cs = opt_name (TrackingController ac) \<and>
     outboundHandoffs v cs = opt_name (OutboundHandoffController ac) \<and>
     inboundHandoffs v cs = opt_name (InboundHandoffController ac) \<and>
     Scratchpad ac = scratchpad vac"

definition same_state :: "Sim \<Rightarrow> VATSIMServer \<Rightarrow> bool" where
  "same_state sim v \<longleftrightarrow>
     map_option Callsign (Scenario sim) = Some (callsign v) \<and>
     (\<forall>cs. rel_option (same_aircraft v cs) (Aircraft sim cs) (aircraft v cs))"

text \<open>
  The same outcome: the same error, or success in the same state.
\<close>

definition same_outcome :: "failure + Sim \<Rightarrow> failure + VATSIMServer \<Rightarrow> bool" where
  "same_outcome a b =
     (case a of
        Inl e \<Rightarrow> (case b of Inl e' \<Rightarrow> e = e' | Inr v \<Rightarrow> False)
      | Inr sim \<Rightarrow> (case b of Inl e' \<Rightarrow> False | Inr v \<Rightarrow> same_state sim v))"

text \<open>
  The operations of the shared contract that both files implement, as commands; a call
  of the simulation's \<open>Handoff\<close> comes with its random draw \<open>r\<close>.
\<close>

datatype Command =
    CmdInitiateTrack
  | CmdDropTrack
  | CmdHandoff string
  | CmdAcceptHandoff
  | CmdSetScratchpad string

definition Sim_call :: "Command \<Rightarrow> int \<Rightarrow> Sim \<Rightarrow> string \<Rightarrow> failure + Sim" where
  "Sim_call cmd r sim cs =
     (case cmd of
        CmdInitiateTrack \<Rightarrow> Sim_InitiateTrack sim cs
      | CmdDropTrack \<Rightarrow> Sim_DropTrack sim cs
      | CmdHandoff controller \<Rightarrow> Sim_Handoff sim cs controller r
      | CmdAcceptHandoff \<Rightarrow> Sim_AcceptHandoff sim cs
      | CmdSetScratchpad sp \<Rightarrow> Sim_SetScratchpad sim cs sp)"

definition VATSIMServer_call :: "Command \<Rightarrow> VATSIMServer \<Rightarrow> string \<Rightarrow> failure + VATSIMServer" where
  "VATSIMServer_call cmd v cs =
     (case cmd of
        CmdInitiateTrack \<Rightarrow> VATSIMServer_InitiateTrack v cs
      | CmdDropTrack \<Rightarrow> VATSIMServer_DropTrack v cs
      | CmdHandoff controller \<Rightarrow> VATSIMServer_Handoff v cs controller
      | CmdAcceptHandoff \<Rightarrow> VATSIMServer_AcceptHandoff v cs
      | CmdSetScratchpad sp \<Rightarrow> VATSIMServer_SetScratchpad v cs sp)"

text \<open>
  Where the two implementations agree. Both know the target controller of a handoff
  under the callsign given, or neither knows it. A command for an aircraft of the
  registry is in the common ground when: \<open>InitiateTrack\<close>, the user does not track
  it already; \<open>DropTrack\<close>, some controller tracks it; \<open>Handoff\<close>, some controller
  tracks it and, if that is the user, the target is known alike; \<open>AcceptHandoff\<close>,
  it is being handed off to the user or to nobody; \<open>SetScratchpad\<close>, some controller
  tracks it and, if that is the user, the scratchpad has at most three bytes. A
  command for a callsign outside the registry is always in the common ground.
\<close>

definition known_alike :: "Sim \<Rightarrow> VATSIMServer \<Rightarrow> string \<Rightarrow> bool" where
  "known_alike sim v controller =
     (case Sim_GetController sim controller of
        None \<Rightarrow> VATSIMServer_GetController v controller = None
      | Some ctrl \<Rightarrow> VATSIMServer_GetController v controller \<noteq> None \<and>
                     ctrl_Callsign ctrl = controller \<and> controller \<noteq> [])"

definition common_ground :: "Command \<Rightarrow> Sim \<Rightarrow> VATSIMServer \<Rightarrow> string \<Rightarrow> bool" where
  "common_ground cmd sim v cs =
     (case Aircraft sim cs of
        None \<Rightarrow> True
      | Some ac \<Rightarrow>
          (case cmd of
             CmdInitiateTrack \<Rightarrow> TrackingController ac \<noteq> callsign v
           | CmdDropTrack \<Rightarrow> TrackingController ac \<noteq> []
           | CmdHandoff controller \<Rightarrow>
               TrackingController ac \<noteq> [] \<and>
               (TrackingController ac \<noteq> callsign v \<or> known_alike sim v controller)
           | CmdAcceptHandoff \<Rightarrow>
               InboundHandoffController ac = [] \<or> InboundHandoffController ac = callsign v
           | CmdSetScratchpad sp \<Rightarrow>
               TrackingController ac \<noteq> [] \<and>
               (TrackingController ac \<noteq> callsign v \<or> length sp \<le> 3)))"

section \<open>Concrete states\<close>

text \<open>
  A simulation with the user at \<open>JFK_APP\<close> and three aircraft: \<open>AAL123\<close>, tracked
  by the user; \<open>DAL88\<close>, tracked by \<open>NY_CTR\<close> and being handed off to the user;
  \<open>N5GX\<close>, untracked.
\<close>

definition ac_AAL123 :: Aircraft where
  "ac_AAL123 = \<lparr>TrackingController = ''JFK_APP'', OutboundHandoffController = [],
     InboundHandoffController = [], Scratchpad = [], FlightPlan = Some \<lparr>Altitude = 35000\<rparr>,
     Heading = 90, AssignedAltitude = 0, AssignedHeading = 0, TurnDirection = 0,
     ClearedApproach = True\<rparr>"

definition ac_DAL88 :: Aircraft where
  "ac_DAL88 = \<lparr>TrackingController = ''NY_CTR'', OutboundHandoffController = [],
     InboundHandoffController = ''JFK_APP'', Scratchpad = ''LGA'',
     FlightPlan = Some \<lparr>Altitude = 24000\<rparr>,
     Heading = 270, AssignedAltitude = 11000, AssignedHeading = 250, TurnDirection = 0,
     ClearedApproach = False\<rparr>"

definition ac_N5GX :: Aircraft where
  "ac_N5GX = \<lparr>TrackingController = [], OutboundHandoffController = [],
     InboundHandoffController = [], Scratchpad = [], FlightPlan = Some \<lparr>Altitude = 7000\<rparr>,
     Heading = 45, AssignedAltitude = 0, AssignedHeading = 0, TurnDirection = 0,
     ClearedApproach = False\<rparr>"

definition ctrl_NY :: Controller where
  "ctrl_NY = \<lparr>ctrl_Callsign = ''NY_CTR'', ctrl_SectorId = ''N56''\<rparr>"

definition sim0 :: Sim where
  "sim0 = \<lparr>Scenario = Some \<lparr>Callsign = ''JFK_APP'', Controllers = [''JFK_APP'', ''NY_CTR'']\<rparr>,
     Aircraft = [''AAL123'' \<mapsto> ac_AAL123, ''DAL88'' \<mapsto> ac_DAL88, ''N5GX'' \<mapsto> ac_N5GX],
     Handoffs = Map.empty, currentTime = 1000 * Second, eventStream = [], audio = [], lg = [],
     ControlPositions = [(''NY_CTR'', ctrl_NY)]\<rparr>"

text \<open>
  The adapter signed in as \<open>JFK_APP\<close> with the same three aircraft in the same
  tracking and handoff state; \<open>vatsim1\<close> is \<open>vatsim0\<close> with the inbound handoff of \<open>DAL88\<close>
  recorded under the controller who offers it. At session time \<open>5000\<close> minutes,
  \<open>AAL123\<close> was heard from a minute ago, \<open>DAL88\<close> exactly 30 minutes ago and
  \<open>N5GX\<close> 1000 minutes ago.
\<close>

definition vatsim0 :: VATSIMServer where
  "vatsim0 = \<lparr>callsign = ''JFK_APP'',
     connection = Some \<lparr>GetMessages = [], conn_CurrentTime = 5000 * Minute\<rparr>,
     aircraft = [''AAL123'' \<mapsto> \<lparr>scratchpad = [], tracks0_time = 4999 * Minute\<rparr>,
                 ''DAL88'' \<mapsto> \<lparr>scratchpad = ''LGA'', tracks0_time = 4970 * Minute\<rparr>,
                 ''N5GX'' \<mapsto> \<lparr>scratchpad = [], tracks0_time = 4000 * Minute\<rparr>],
     controllers = [''NY_CTR'' \<mapsto> ctrl_NY],
     trackingControllers = [''AAL123'' \<mapsto> ''JFK_APP'', ''DAL88'' \<mapsto> ''NY_CTR''],
     outboundHandoffs = Map.empty,
     inboundHandoffs = [''DAL88'' \<mapsto> ''JFK_APP''],
     atcValid = True,
     controlUpdates = [], controlDelegate = [], vlg = []\<rparr>"

definition vatsim1 :: VATSIMServer where
  "vatsim1 = vatsim0\<lparr>inboundHandoffs := [''DAL88'' \<mapsto> ''NY_CTR'']\<rparr>"

text \<open>
  The simulation with two handoffs to \<open>NY_CTR\<close> pending at time 1000 s: that of
  \<open>AAL123\<close> with deadline 995 s, that of \<open>N5GX\<close> with deadline 1004 s.
\<close>

definition sim_h :: Sim where
  "sim_h = sim0\<lparr>Aircraft :=
       [''AAL123'' \<mapsto> ac_AAL123\<lparr>OutboundHandoffController := ''NY_CTR''\<rparr>,
        ''N5GX'' \<mapsto> ac_N5GX\<lparr>TrackingController := ''JFK_APP'',
                               OutboundHandoffController := ''NY_CTR''\<rparr>],
     Handoffs := [''AAL123'' \<mapsto> 995 * Second, ''N5GX'' \<mapsto> 1004 * Second]\<rparr>"

text \<open>
  A table of three specifications: \<open>TRACK:controller:callsign\<close> records the
  controller as tracking the aircraft; every \<open>TRACK\<close> and \<open>PING\<close> line matches a
  specification without a handler; every \<open>PING\<close> line matches one whose handler
  fails. And the adapter with five lines to receive.
\<close>

definition spec_track :: VATSIMMessageSpec where
  "spec_track = \<lparr>Match = (\<lambda>strs. case strs of
                              [a, b, c] \<Rightarrow> if a = ''TRACK'' then Some (b, [c]) else None
                            | _ \<Rightarrow> None),
                  handler = Some (\<lambda>v sender args. trackInitiated v (hd args) sender)\<rparr>"

definition spec_seen :: VATSIMMessageSpec where
  "spec_seen = \<lparr>Match = (\<lambda>strs. if hd strs = ''TRACK'' \<or> hd strs = ''PING''
                                 then Some (''server'', tl strs) else None),
                 handler = None\<rparr>"

definition spec_ping :: VATSIMMessageSpec where
  "spec_ping = \<lparr>Match = (\<lambda>strs. if hd strs = ''PING'' then Some (''server'', tl strs) else None),
                 handler = Some (\<lambda>v sender args. (Some ''unsupported'', v))\<rparr>"

definition vatsim_rx :: VATSIMServer where
  "vatsim_rx = vatsim0\<lparr>connection := Some \<lparr>GetMessages =
       [''TRACK:NY_CTR:N5GX'', [], '' :x'', ''HELLO:1'', ''PING''],
       conn_CurrentTime = 5000 * Minute\<rparr>\<rparr>"

text \<open>
  The simulation after the user has handed \<open>AAL123\<close> off to \<open>NY_CTR\<close> with the
  draw 3, so that the record's deadline is 1005 s. Then the clock at 1006 s (as
  \<open>GetUpdates\<close> advances it before it calls \<open>updateState\<close>) after the user has
  cancelled the handoff, and after the aircraft has been deleted.
\<close>

definition sim_handed :: Sim where
  "sim_handed = projr (Sim_Handoff sim0 ''AAL123'' ''NY_CTR'' 3)"

definition sim_cancelled :: Sim where
  "sim_cancelled = (projr (Sim_CancelHandoff sim_handed ''AAL123''))\<lparr>currentTime := 1006 * Second\<rparr>"

definition sim_deleted :: Sim where
  "sim_deleted = (projr (Sim_DeleteAircraft sim_handed ''AAL123''))\<lparr>currentTime := 1006 * Second\<rparr>"

section \<open>Machine arithmetic\<close>

lemma wrap64_id: "- (2 ^ 63) \<le> x \<Longrightarrow> x < 2 ^ 63 \<Longrightarrow> wrap64 x = x"
  unfolding wrap64_def by (simp add: mod_pos_pos_trivial)

section \<open>Handoff deadlines in the local simulation\<close>

text \<open>
  Claim C3 says that the delay of a handoff lies in \<open>[2, 10)\<close> seconds. The code adds
  \<open>2 + rand.Intn(10)\<close> seconds: with the draw 9 the deadline of \<open>AAL123\<close> is 11
  seconds after the current virtual time, outside the claimed interval.
\<close>

theorem Sim_Handoff_delay_counterexample:
  "\<not> isl (Sim_Handoff sim0 ''AAL123'' ''NY_CTR'' 9) \<and>
   Handoffs (projr (Sim_Handoff sim0 ''AAL123'' ''NY_CTR'' 9)) ''AAL123''
     = Some (Sim_CurrentTime sim0 + 11 * Second) \<and>
   \<not> Sim_CurrentTime sim0 + 11 * Second < Sim_CurrentTime sim0 + 10 * Second"
  by (simp add: Sim_Handoff_def sim0_def ac_AAL123_def Post_def Sim_GetController_def
      Sim_CurrentTime_def wrap64_def Second_def)

text \<open>
  Claim C3, amended: for an aircraft tracked by the user and a target controller that
  \<open>GetController\<close> finds, \<open>Sim.Handoff\<close> succeeds and records for the callsign the
  deadline \<open>now + d\<close> seconds, where \<open>d = 2 + rand.Intn(10)\<close> lies in the half-open
  interval \<open>[2, 12)\<close>; the aircraft's outbound handoff controller is the target's
  callsign.
\<close>

theorem Sim_Handoff_deadline:
  assumes "Aircraft sim cs = Some ac" and "Scenario sim = Some sc"
    and "TrackingController ac = Callsign sc"
    and "Sim_GetController sim controller = Some ctrl"
    and "0 \<le> r" and "r < 10"
  shows "\<exists>sim1 d. Sim_Handoff sim cs controller r = Inr sim1 \<and>
           d = 2 + r \<and> 2 \<le> d \<and> d < 12 \<and>
           Handoffs sim1 cs = Some (Sim_CurrentTime sim + d * Second) \<and>
           map_option OutboundHandoffController (Aircraft sim1 cs) = Some (ctrl_Callsign ctrl)"
proof -
  have a: "wrap64 (2 + r) = 2 + r"
    using assms(5,6) by (intro wrap64_id) auto
  have b: "wrap64 ((2 + r) * Second) = (2 + r) * Second"
    using assms(5,6) by (intro wrap64_id) (auto simp: Second_def)
  show ?thesis
    using assms a b
    by (auto simp: Sim_Handoff_def Let_def Post_def Sim_CurrentTime_def)
qed

theorem Sim_Handoff_deadline_witness:
  "\<exists>sim1 d. Sim_Handoff sim0 ''AAL123'' ''NY_CTR'' 3 = Inr sim1 \<and>
     d = 2 + 3 \<and> 2 \<le> d \<and> d < 12 \<and>
     Handoffs sim1 ''AAL123'' = Some (Sim_CurrentTime sim0 + d * Second) \<and>
     map_option OutboundHandoffController (Aircraft sim1 ''AAL123'') = Some ''NY_CTR''"
proof -
  have gc: "Sim_GetController sim0 ''NY_CTR'' = Some ctrl_NY"
    by (simp add: sim0_def Sim_GetController_def)
  show ?thesis
    using Sim_Handoff_deadline [OF _ _ _ gc, of "''AAL123''" _ _ 3]
    by (simp add: sim0_def ac_AAL123_def ctrl_NY_def)
qed

section \<open>Scratchpad length\<close>

text \<open>
  Claim C1 says that \<open>SetScratchpad\<close> with more than three characters fails with
  \<open>ScratchpadTooLong\<close> in both implementations. The adapter makes the check; the local
  simulation has none: on the four characters \<open>ABCD\<close> it succeeds and stores them
  as the scratchpad of \<open>AAL123\<close>, where the adapter returns the error.
\<close>

theorem Sim_SetScratchpad_no_length_check:
  "length ''ABCD'' > 3 \<and>
   \<not> isl (Sim_SetScratchpad sim0 ''AAL123'' ''ABCD'') \<and>
   map_option Scratchpad (Aircraft (projr (Sim_SetScratchpad sim0 ''AAL123'' ''ABCD'')) ''AAL123'')
     = Some ''ABCD'' \<and>
   VATSIMServer_SetScratchpad vatsim0 ''AAL123'' ''ABCD'' = Inl (Error ErrScratchpadTooLong)"
  by (simp add: Sim_SetScratchpad_def sim0_def ac_AAL123_def Post_def
      VATSIMServer_SetScratchpad_def vatsim0_def GetAircraft_def trackedByAnotherController_def)

text \<open>
  X1. The adapter's half of the claim: signed in as a controller, for an aircraft in the
  registry that no other controller tracks, a scratchpad of more than three bytes is
  refused with \<open>ScratchpadTooLong\<close> (an error return leaves the state as it was).
\<close>

theorem VATSIMServer_SetScratchpad_too_long:
  assumes "atcValid v" and "aircraft v cs = Some ac" and "\<not> trackedByAnotherController v cs"
    and "length sp > 3"
  shows "VATSIMServer_SetScratchpad v cs sp = Inl (Error ErrScratchpadTooLong)"
  using assms by (simp add: VATSIMServer_SetScratchpad_def GetAircraft_def)

theorem VATSIMServer_SetScratchpad_too_long_witness:
  "VATSIMServer_SetScratchpad vatsim0 ''N5GX'' ''WXYZ'' = Inl (Error ErrScratchpadTooLong)"
  using VATSIMServer_SetScratchpad_too_long [of vatsim0 "''N5GX''" _ "''WXYZ''"]
  by (simp add: vatsim0_def trackedByAnotherController_def)

section \<open>Heading instructions\<close>

text \<open>
  Claim C10 says that after \<open>AssignHeading\<close>, \<open>TurnLeft\<close> or \<open>TurnRight\<close> the assigned
  heading lies in \<open>[1, 360]\<close> for all integer arguments. \<open>AssignHeading\<close> stores any
  non-zero argument as it is: heading 500 leaves \<open>AAL123\<close> with assigned heading 500.
\<close>

theorem AssignHeading_out_of_range_counterexample:
  "\<not> isl (AssignHeading sim0 ''AAL123'' 500 0) \<and>
   map_option AssignedHeading (Aircraft (projr (AssignHeading sim0 ''AAL123'' 500 0)) ''AAL123'')
     = Some 500 \<and>
   \<not> (500::int) \<le> 360"
  by (simp add: AssignHeading_def sim0_def ac_AAL123_def pilotResponse_def Post_def)

lemma AssignHeading_result:
  assumes "Aircraft sim cs = Some ac"
  shows "\<exists>sim1 ac1. AssignHeading sim cs heading turn = Inr sim1 \<and> Aircraft sim1 cs = Some ac1 \<and>
            \<not> ClearedApproach ac1 \<and>
            (heading = 0 \<longrightarrow> AssignedHeading ac1 = 360) \<and>
            (0 \<le> heading \<and> heading \<le> 360 \<longrightarrow> 1 \<le> AssignedHeading ac1 \<and> AssignedHeading ac1 \<le> 360)"
  using assms by (auto simp: AssignHeading_def Let_def pilotResponse_def Post_def)

lemma TurnLeft_result:
  assumes "Aircraft sim cs = Some ac"
  shows "\<exists>sim1 ac1. TurnLeft sim cs deg = Inr sim1 \<and> Aircraft sim1 cs = Some ac1 \<and>
            \<not> ClearedApproach ac1 \<and>
            (- 359 \<le> turn_from ac - deg \<and> turn_from ac - deg \<le> 360
               \<longrightarrow> 1 \<le> AssignedHeading ac1 \<and> AssignedHeading ac1 \<le> 360)"
proof -
  have l: "- 359 \<le> x \<Longrightarrow> x \<le> 360 \<Longrightarrow> wrap64 x = x \<and> wrap64 (x + 360) = x + 360" for x
    by (simp add: wrap64_id)
  show ?thesis
    using assms l[of "go_int (Heading ac) - deg"] l[of "AssignedHeading ac - deg"]
    by (auto simp: TurnLeft_def Let_def pilotResponse_def Post_def turn_from_def)
qed

lemma TurnRight_result:
  assumes "Aircraft sim cs = Some ac"
  shows "\<exists>sim1 ac1. TurnRight sim cs deg = Inr sim1 \<and> Aircraft sim1 cs = Some ac1 \<and>
            \<not> ClearedApproach ac1 \<and>
            (1 \<le> turn_from ac + deg \<and> turn_from ac + deg \<le> 720
               \<longrightarrow> 1 \<le> AssignedHeading ac1 \<and> AssignedHeading ac1 \<le> 360)"
proof -
  have r: "1 \<le> x \<Longrightarrow> x \<le> 720 \<Longrightarrow> wrap64 x = x \<and> wrap64 (x - 360) = x - 360" for x
    by (simp add: wrap64_id)
  show ?thesis
    using assms r[of "go_int (Heading ac) + deg"] r[of "AssignedHeading ac + deg"]
    by (auto simp: TurnRight_def Let_def pilotResponse_def Post_def turn_from_def)
qed

text \<open>
  Claim C10, amended: for an aircraft in the registry the three instructions succeed
  for all integer arguments and set \<open>ClearedApproach\<close> to false. The assigned heading
  then lies in \<open>[1, 360]\<close> when: \<open>AssignHeading\<close> is given a heading in \<open>[0, 360]\<close>
  (0 is stored as 360); \<open>TurnLeft\<close> is given \<open>deg\<close> with \<open>turn_from - deg\<close> in
  \<open>[-359, 360]\<close>; \<open>TurnRight\<close> is given \<open>deg\<close> with \<open>turn_from + deg\<close> in
  \<open>[1, 720]\<close>.
\<close>

theorem heading_instructions_range:
  assumes "Aircraft sim cs = Some ac"
  shows "(\<exists>sim1 ac1. AssignHeading sim cs heading turn = Inr sim1 \<and> Aircraft sim1 cs = Some ac1 \<and>
            \<not> ClearedApproach ac1 \<and>
            (heading = 0 \<longrightarrow> AssignedHeading ac1 = 360) \<and>
            (0 \<le> heading \<and> heading \<le> 360 \<longrightarrow> 1 \<le> AssignedHeading ac1 \<and> AssignedHeading ac1 \<le> 360)) \<and>
         (\<exists>sim1 ac1. TurnLeft sim cs deg = Inr sim1 \<and> Aircraft sim1 cs = Some ac1 \<and>
            \<not> ClearedApproach ac1 \<and>
            (- 359 \<le> turn_from ac - deg \<and> turn_from ac - deg \<le> 360
               \<longrightarrow> 1 \<le> AssignedHeading ac1 \<and> AssignedHeading ac1 \<le> 360)) \<and>
         (\<exists>sim1 ac1. TurnRight sim cs deg = Inr sim1 \<and> Aircraft sim1 cs = Some ac1 \<and>
            \<not> ClearedApproach ac1 \<and>
            (1 \<le> turn_from ac + deg \<and> turn_from ac + deg \<le> 720
               \<longrightarrow> 1 \<le> AssignedHeading ac1 \<and> AssignedHeading ac1 \<le> 360))"
  using AssignHeading_result[OF assms] TurnLeft_result[OF assms] TurnRight_result[OF assms]
  by blast

theorem heading_instructions_range_witness:
  "(\<exists>sim1 ac1. AssignHeading sim0 ''AAL123'' 0 1 = Inr sim1 \<and> Aircraft sim1 ''AAL123'' = Some ac1 \<and>
      \<not> ClearedApproach ac1 \<and> AssignedHeading ac1 = 360) \<and>
   (\<exists>sim1 ac1. TurnLeft sim0 ''AAL123'' 100 = Inr sim1 \<and> Aircraft sim1 ''AAL123'' = Some ac1 \<and>
      \<not> ClearedApproach ac1 \<and> 1 \<le> AssignedHeading ac1 \<and> AssignedHeading ac1 \<le> 360) \<and>
   (\<exists>sim1 ac1. TurnRight sim0 ''AAL123'' 100 = Inr sim1 \<and> Aircraft sim1 ''AAL123'' = Some ac1 \<and>
      \<not> ClearedApproach ac1 \<and> 1 \<le> AssignedHeading ac1 \<and> AssignedHeading ac1 \<le> 360)"
proof -
  have a: "Aircraft sim0 ''AAL123'' = Some ac_AAL123"
    by (simp add: sim0_def)
  show ?thesis
    using heading_instructions_range [OF a, of 0 1 100]
    by (simp add: turn_from_def go_int_def ac_AAL123_def) blast
qed

section \<open>Accepting a handoff\<close>

text \<open>
  Claim C5 says that in both implementations \<open>AcceptHandoff\<close> fails unless the user is
  the aircraft's inbound handoff controller. The adapter keeps, per callsign, the
  controller who offers the aircraft, and accepts whenever an entry exists: \<open>DAL88\<close>
  is offered by \<open>NY_CTR\<close>, which is not the user's callsign, and the user's
  \<open>AcceptHandoff\<close> succeeds and takes the track.
\<close>

theorem AcceptHandoff_adapter_counterexample:
  "InboundHandoffController_of vatsim1 ''DAL88'' \<noteq> callsign vatsim1 \<and>
   \<not> isl (VATSIMServer_AcceptHandoff vatsim1 ''DAL88'') \<and>
   GetTrackingController (projr (VATSIMServer_AcceptHandoff vatsim1 ''DAL88'')) ''DAL88'' = callsign vatsim1"
  by (simp add: InboundHandoffController_of_def vatsim1_def vatsim0_def VATSIMServer_AcceptHandoff_def
      GetAircraft_def GetTrackingController_def modified_def delegate_def)

text \<open>
  Claim C5, amended. In the local simulation, for an aircraft in the registry,
  \<open>AcceptHandoff\<close> fails with \<open>NotBeingHandedOffToMe\<close> unless the user is the
  aircraft's inbound handoff controller; when it is, the call succeeds, the user tracks
  the aircraft and the inbound handoff is cleared. In the adapter, signed in as a
  controller, for an aircraft in the registry, \<open>AcceptHandoff\<close> fails with
  \<open>NotBeingHandedOffToMe\<close> when no inbound handoff is recorded for the callsign;
  when one is, whoever offers it, the call succeeds, the user tracks the aircraft and
  the entry is removed.
\<close>

theorem AcceptHandoff_outcomes:
  assumes "Aircraft sim cs = Some ac" and "Scenario sim = Some sc"
    and "aircraft v cs' = Some vac" and "atcValid v"
  shows "(InboundHandoffController ac \<noteq> Callsign sc \<longrightarrow>
            Sim_AcceptHandoff sim cs = Inl (Error ErrNotBeingHandedOffToMe)) \<and>
         (InboundHandoffController ac = Callsign sc \<longrightarrow>
            (\<exists>sim1 ac1. Sim_AcceptHandoff sim cs = Inr sim1 \<and> Aircraft sim1 cs = Some ac1 \<and>
               TrackingController ac1 = Callsign sc \<and> InboundHandoffController ac1 = [])) \<and>
         (inboundHandoffs v cs' = None \<longrightarrow>
            VATSIMServer_AcceptHandoff v cs' = Inl (Error ErrNotBeingHandedOffToMe)) \<and>
         (inboundHandoffs v cs' \<noteq> None \<longrightarrow>
            (\<exists>v'. VATSIMServer_AcceptHandoff v cs' = Inr v' \<and>
               GetTrackingController v' cs' = callsign v \<and>
               inboundHandoffs v' cs' = None \<and> InboundHandoffController_of v' cs' = []))"
  using assms
  by (auto simp: Sim_AcceptHandoff_def Post_def VATSIMServer_AcceptHandoff_def GetAircraft_def
      GetTrackingController_def InboundHandoffController_of_def modified_def delegate_def Let_def)

theorem AcceptHandoff_outcomes_witness:
  "(\<exists>sim1 ac1. Sim_AcceptHandoff sim0 ''DAL88'' = Inr sim1 \<and> Aircraft sim1 ''DAL88'' = Some ac1 \<and>
      TrackingController ac1 = ''JFK_APP'' \<and> InboundHandoffController ac1 = []) \<and>
   Sim_AcceptHandoff sim0 ''AAL123'' = Inl (Error ErrNotBeingHandedOffToMe) \<and>
   (\<exists>v'. VATSIMServer_AcceptHandoff vatsim1 ''DAL88'' = Inr v' \<and>
      GetTrackingController v' ''DAL88'' = ''JFK_APP'' \<and> inboundHandoffs v' ''DAL88'' = None) \<and>
   VATSIMServer_AcceptHandoff vatsim1 ''AAL123'' = Inl (Error ErrNotBeingHandedOffToMe)"
proof -
  have s: "Scenario sim0 = Some \<lparr>Callsign = ''JFK_APP'', Controllers = [''JFK_APP'', ''NY_CTR'']\<rparr>"
    by (simp add: sim0_def)
  have a: "Aircraft sim0 ''DAL88'' = Some ac_DAL88" and b: "Aircraft sim0 ''AAL123'' = Some ac_AAL123"
    by (simp_all add: sim0_def)
  have c: "aircraft vatsim1 ''DAL88'' = Some \<lparr>scratchpad = ''LGA'', tracks0_time = 4970 * Minute\<rparr>"
    and d: "aircraft vatsim1 ''AAL123'' = Some \<lparr>scratchpad = [], tracks0_time = 4999 * Minute\<rparr>"
    by (simp_all add: vatsim1_def vatsim0_def)
  have e: "atcValid vatsim1"
    by (simp add: vatsim1_def vatsim0_def)
  show ?thesis
    using AcceptHandoff_outcomes [OF a s c e] AcceptHandoff_outcomes [OF b s d e]
    by (simp add: ac_DAL88_def ac_AAL123_def vatsim1_def vatsim0_def) blast
qed

section \<open>Handoff expiry\<close>

text \<open>
  One iteration of the expiry loop, for a key whose aircraft (if any) has a flight
  plan, and then the whole loop over distinct keys: it removes the due records, accepts
  the handoffs of their aircraft, posts one acceptance event and plays one sound per
  accepted handoff, and touches nothing else.
\<close>

lemma acceptHandoff_step:
  assumes "\<forall>ac. Aircraft sim k = Some ac \<longrightarrow> FlightPlan ac \<noteq> None"
  shows "\<exists>sim1. acceptHandoff now k sim = Inr sim1 \<and>
           Handoffs sim1 = (if due now sim k then (Handoffs sim)(k := None) else Handoffs sim) \<and>
           Aircraft sim1 = (if due now sim k
                            then (\<lambda>cs. if cs = k then map_option accepted (Aircraft sim k) else Aircraft sim cs)
                            else Aircraft sim) \<and>
           eventStream sim1 = eventStream sim @ map (acceptedEvent sim) (acceptances now sim [k]) \<and>
           audio sim1 = audio sim @ map (\<lambda>_. AudioEventHandoffAccepted) (acceptances now sim [k]) \<and>
           Scenario sim1 = Scenario sim \<and> currentTime sim1 = currentTime sim \<and>
           lg sim1 = lg sim \<and> ControlPositions sim1 = ControlPositions sim"
proof (cases "Handoffs sim k")
  case None
  then show ?thesis
    by (simp add: acceptHandoff_def due_def acceptances_def)
next
  case (Some t)
  show ?thesis
  proof (cases "now > t")
    case False
    with Some show ?thesis
      by (simp add: acceptHandoff_def due_def acceptances_def)
  next
    case True
    show ?thesis
    proof (cases "Aircraft sim k")
      case None
      with Some True show ?thesis
        by (auto simp: acceptHandoff_def due_def acceptances_def)
    next
      case (Some ac)
      with assms obtain fp where fp: "FlightPlan ac = Some fp" by auto
      from \<open>Handoffs sim k = Some t\<close> True Some fp show ?thesis
        by (auto simp: acceptHandoff_def due_def acceptances_def acceptedEvent_def accepted_def
            Let_def Post_def PlaySound_def fun_eq_iff)
    qed
  qed
qed

lemma accepted_FlightPlan [simp]: "FlightPlan (accepted ac) = FlightPlan ac"
  by (simp add: accepted_def)

lemma acceptHandoffs_run:
  assumes "distinct ks" and "\<forall>cs ac. Aircraft sim cs = Some ac \<longrightarrow> FlightPlan ac \<noteq> None"
  shows "\<exists>sim1. acceptHandoffs now ks sim = Inr sim1 \<and>
           Handoffs sim1 = (\<lambda>cs. if cs \<in> set ks \<and> due now sim cs then None else Handoffs sim cs) \<and>
           Aircraft sim1 = (\<lambda>cs. if cs \<in> set ks \<and> due now sim cs
                                 then map_option accepted (Aircraft sim cs) else Aircraft sim cs) \<and>
           eventStream sim1 = eventStream sim @ map (acceptedEvent sim) (acceptances now sim ks) \<and>
           audio sim1 = audio sim @ map (\<lambda>_. AudioEventHandoffAccepted) (acceptances now sim ks) \<and>
           Scenario sim1 = Scenario sim \<and> currentTime sim1 = currentTime sim \<and>
           lg sim1 = lg sim \<and> ControlPositions sim1 = ControlPositions sim"
  using assms
proof (induction ks arbitrary: sim)
  case Nil
  then show ?case by (simp add: acceptances_def)
next
  case (Cons k ks)
  from Cons.prems(2) have "\<forall>ac. Aircraft sim k = Some ac \<longrightarrow> FlightPlan ac \<noteq> None"
    by blast
  from acceptHandoff_step [OF this, of now]
  obtain s1 where s1: "acceptHandoff now k sim = Inr s1"
    and h1: "Handoffs s1 = (if due now sim k then (Handoffs sim)(k := None) else Handoffs sim)"
    and a1: "Aircraft s1 = (if due now sim k
               then (\<lambda>cs. if cs = k then map_option accepted (Aircraft sim k) else Aircraft sim cs)
               else Aircraft sim)"
    and e1: "eventStream s1 = eventStream sim @ map (acceptedEvent sim) (acceptances now sim [k])"
    and u1: "audio s1 = audio sim @ map (\<lambda>_. AudioEventHandoffAccepted) (acceptances now sim [k])"
    and r1: "Scenario s1 = Scenario sim" "currentTime s1 = currentTime sim"
            "lg s1 = lg sim" "ControlPositions s1 = ControlPositions sim"
    by blast
  have k: "k \<notin> set ks" and d: "distinct ks"
    using Cons.prems(1) by auto
  have fp1: "\<forall>cs ac. Aircraft s1 cs = Some ac \<longrightarrow> FlightPlan ac \<noteq> None"
    using Cons.prems(2) by (auto simp: a1 split: if_splits)
  have same_h: "Handoffs s1 cs = Handoffs sim cs" if "cs \<noteq> k" for cs
    using that by (simp add: h1)
  have same_a: "Aircraft s1 cs = Aircraft sim cs" if "cs \<noteq> k" for cs
    using that by (simp add: a1)
  have same_due: "due now s1 cs = due now sim cs" if "cs \<noteq> k" for cs
    using that by (simp add: due_def same_h)
  have due_k: "due now sim k \<Longrightarrow> Handoffs s1 k = None" "\<not> due now sim k \<Longrightarrow> Handoffs s1 k = Handoffs sim k"
    by (simp_all add: h1)
  have in_ks: "due now s1 cs = due now sim cs \<and> Aircraft s1 cs = Aircraft sim cs
      \<and> Handoffs s1 cs = Handoffs sim cs" if "cs \<in> set ks" for cs
  proof -
    from that k have "cs \<noteq> k" by auto
    then show ?thesis by (simp add: same_due same_a same_h)
  qed
  have acc: "acceptances now s1 ks = acceptances now sim ks"
    unfolding acceptances_def
    by (rule filter_cong[OF refl]) (simp add: in_ks)
  have ev: "map (acceptedEvent s1) (acceptances now sim ks) = map (acceptedEvent sim) (acceptances now sim ks)"
    by (rule map_cong[OF refl]) (simp add: acceptances_def acceptedEvent_def in_ks)
  from Cons.IH [OF d fp1]
  obtain s2 where s2: "acceptHandoffs now ks s1 = Inr s2"
    and h2: "Handoffs s2 = (\<lambda>cs. if cs \<in> set ks \<and> due now s1 cs then None else Handoffs s1 cs)"
    and a2: "Aircraft s2 = (\<lambda>cs. if cs \<in> set ks \<and> due now s1 cs
                                 then map_option accepted (Aircraft s1 cs) else Aircraft s1 cs)"
    and e2: "eventStream s2 = eventStream s1 @ map (acceptedEvent s1) (acceptances now s1 ks)"
    and u2: "audio s2 = audio s1 @ map (\<lambda>_. AudioEventHandoffAccepted) (acceptances now s1 ks)"
    and r2: "Scenario s2 = Scenario s1" "currentTime s2 = currentTime s1"
            "lg s2 = lg s1" "ControlPositions s2 = ControlPositions s1"
    by blast
  have hs1: "Handoffs s1 cs = (if cs = k \<and> due now sim k then None else Handoffs sim cs)" for cs
    by (simp add: h1)
  have as1: "Aircraft s1 cs = (if cs = k \<and> due now sim k
        then map_option accepted (Aircraft sim k) else Aircraft sim cs)" for cs
    by (simp add: a1)
  have due_ks: "cs \<in> set ks \<Longrightarrow> due now s1 cs = due now sim cs" for cs
    using in_ks by blast
  have H: "Handoffs s2 = (\<lambda>cs. if cs \<in> set (k # ks) \<and> due now sim cs then None else Handoffs sim cs)"
    unfolding h2 using k by (auto simp: fun_eq_iff hs1 due_ks)
  have A: "Aircraft s2 = (\<lambda>cs. if cs \<in> set (k # ks) \<and> due now sim cs
                                 then map_option accepted (Aircraft sim cs) else Aircraft sim cs)"
    unfolding a2 using k by (auto simp: fun_eq_iff as1 due_ks)
  have E: "eventStream s2 = eventStream sim @ map (acceptedEvent sim) (acceptances now sim (k # ks))"
    unfolding e2 e1 acc ev by (simp add: acceptances_def)
  have U: "audio s2 = audio sim @ map (\<lambda>_. AudioEventHandoffAccepted) (acceptances now sim (k # ks))"
    unfolding u2 u1 acc by (simp add: acceptances_def)
  show ?case
    using s1 s2 H A E U r1 r2 by simp
qed

text \<open>
  A record of \<open>sim.Handoffs\<close> at a tick, whatever created it: after its deadline it
  is removed and the aircraft, if in the registry, passes to whatever its outbound
  handoff controller then is; up to its deadline nothing happens to either.
\<close>

lemma pending_record_at_tick:
  assumes "distinct ks" and "set ks = dom (Handoffs sim)"
    and "\<forall>c ac. Aircraft sim c = Some ac \<longrightarrow> FlightPlan ac \<noteq> None"
    and "Handoffs sim cs = Some t"
  shows "\<exists>sim1. updateState_handoffs ks sim = Inr sim1 \<and>
           (Sim_CurrentTime sim > t \<longrightarrow>
              Handoffs sim1 cs = None \<and>
              (\<forall>ac fp. Aircraft sim cs = Some ac \<and> FlightPlan ac = Some fp \<longrightarrow>
                 Aircraft sim1 cs = Some (ac\<lparr>TrackingController := OutboundHandoffController ac,
                                             OutboundHandoffController := [],
                                             AssignedAltitude := Altitude fp\<rparr>) \<and>
                 AcceptedHandoffEvent (OutboundHandoffController ac) cs
                   \<in> set (drop (length (eventStream sim)) (eventStream sim1)))) \<and>
           (Sim_CurrentTime sim \<le> t \<longrightarrow>
              Handoffs sim1 cs = Some t \<and> Aircraft sim1 cs = Aircraft sim cs)"
proof -
  let ?now = "Sim_CurrentTime sim"
  from acceptHandoffs_run [OF assms(1,3), of ?now]
  obtain sim1 where run: "acceptHandoffs ?now ks sim = Inr sim1"
    and h: "Handoffs sim1 = (\<lambda>c. if c \<in> set ks \<and> due ?now sim c then None else Handoffs sim c)"
    and a: "Aircraft sim1 = (\<lambda>c. if c \<in> set ks \<and> due ?now sim c
                                 then map_option accepted (Aircraft sim c) else Aircraft sim c)"
    and e: "eventStream sim1 = eventStream sim @ map (acceptedEvent sim) (acceptances ?now sim ks)"
    by blast
  have cs: "cs \<in> set ks"
    using assms(2,4) by auto
  have d: "due ?now sim cs \<longleftrightarrow> ?now > t"
    using assms(4) by (simp add: due_def)
  have late: "Handoffs sim1 cs = Some t \<and> Aircraft sim1 cs = Aircraft sim cs" if "?now \<le> t"
    using that d assms(4) by (simp add: h a)
  have gone: "Handoffs sim1 cs = None" if "?now > t"
    using that d cs by (simp add: h)
  have acc: "Aircraft sim1 cs = Some (ac\<lparr>TrackingController := OutboundHandoffController ac,
                                             OutboundHandoffController := [],
                                             AssignedAltitude := Altitude fp\<rparr>) \<and>
             AcceptedHandoffEvent (OutboundHandoffController ac) cs
                   \<in> set (drop (length (eventStream sim)) (eventStream sim1))"
    if "?now > t" and "Aircraft sim cs = Some ac" and "FlightPlan ac = Some fp" for ac fp
  proof -
    have "cs \<in> set (acceptances ?now sim ks)"
      using that d cs by (simp add: acceptances_def)
    then have "acceptedEvent sim cs \<in> set (map (acceptedEvent sim) (acceptances ?now sim ks))"
      by simp
    moreover have "acceptedEvent sim cs = AcceptedHandoffEvent (OutboundHandoffController ac) cs"
      using that by (simp add: acceptedEvent_def)
    ultimately show ?thesis
      using that d cs by (simp add: a e accepted_def)
  qed
  show ?thesis
    unfolding updateState_handoffs_def using run late gone acc by simp
qed

lemma sim_handed_eq:
  "Sim_Handoff sim0 ''AAL123'' ''NY_CTR'' 3 = Inr sim_handed"
  by (simp add: sim_handed_def Sim_Handoff_def sim0_def ac_AAL123_def Sim_GetController_def Let_def)

lemma TrackingController_AAL123: "TrackingController ac_AAL123 = ''JFK_APP''"
  by (simp add: ac_AAL123_def)

lemma sim_handed_fields:
  "Handoffs sim_handed = [''AAL123'' \<mapsto> 1005 * Second]"
  "Aircraft sim_handed ''AAL123'' = Some (ac_AAL123\<lparr>OutboundHandoffController := ''NY_CTR''\<rparr>)"
  "Scenario sim_handed = Scenario sim0"
  "eventStream sim_handed = [ModifiedAircraftEvent ''AAL123'']"
  by (simp_all add: sim_handed_def Sim_Handoff_def sim0_def Sim_GetController_def Let_def Post_def
      Sim_CurrentTime_def wrap64_def Second_def ctrl_NY_def fun_eq_iff
      TrackingController_AAL123)

text \<open>
  Claim C4 says that every pending record, once its deadline has passed, gives the
  track to the handoff's destination controller and publishes an acceptance event.
  \<open>CancelHandoff\<close> and \<open>DeleteAircraft\<close> leave the record of \<open>sim.Handoffs\<close> in
  place. After the handoff of \<open>AAL123\<close> to \<open>NY_CTR\<close> has been cancelled, the tick
  past the deadline leaves \<open>AAL123\<close> with the empty tracking controller, not with
  \<open>NY_CTR\<close>; after \<open>AAL123\<close> has been deleted, the tick past the deadline posts no
  event at all.
\<close>

theorem cancelled_or_deleted_counterexample:
  "\<not> isl (Sim_Handoff sim0 ''AAL123'' ''NY_CTR'' 3) \<and>
   \<not> isl (Sim_CancelHandoff sim_handed ''AAL123'') \<and>
   Handoffs sim_cancelled ''AAL123'' = Some (1005 * Second) \<and>
   Sim_CurrentTime sim_cancelled > 1005 * Second \<and>
   \<not> isl (updateState_handoffs [''AAL123''] sim_cancelled) \<and>
   map_option TrackingController
      (Aircraft (projr (updateState_handoffs [''AAL123''] sim_cancelled)) ''AAL123'') = Some [] \<and>
   [] \<noteq> ''NY_CTR'' \<and>
   \<not> isl (Sim_DeleteAircraft sim_handed ''AAL123'') \<and>
   Handoffs sim_deleted ''AAL123'' = Some (1005 * Second) \<and>
   Sim_CurrentTime sim_deleted > 1005 * Second \<and>
   \<not> isl (updateState_handoffs [''AAL123''] sim_deleted) \<and>
   eventStream (projr (updateState_handoffs [''AAL123''] sim_deleted)) = eventStream sim_deleted"
proof -
  note f = sim_handed_fields
  have c: "Sim_CancelHandoff sim_handed ''AAL123''
      = Inr (Post (ModifiedAircraftEvent ''AAL123'')
          (sim_handed\<lparr>Aircraft := (Aircraft sim_handed)(''AAL123'' \<mapsto> ac_AAL123)\<rparr>))"
    by (simp add: Sim_CancelHandoff_def f sim0_def ac_AAL123_def)
  have d: "Sim_DeleteAircraft sim_handed ''AAL123''
      = Inr ((Post (RemovedAircraftEvent ''AAL123'') sim_handed)
               \<lparr>Aircraft := (Aircraft sim_handed)(''AAL123'' := None)\<rparr>)"
    by (simp add: Sim_DeleteAircraft_def f Post_def Let_def)
  show ?thesis
    by (simp add: sim_handed_eq sim_cancelled_def sim_deleted_def c d f updateState_handoffs_def
        acceptHandoff_def Sim_CurrentTime_def Post_def PlaySound_def Let_def Second_def
        ac_AAL123_def)
qed

lemma Sim_Handoff_success:
  assumes "Sim_Handoff sim cs controller r = Inr simH"
    and "Sim_GetController sim controller = Some ctrl"
    and "0 \<le> r" and "r < 10"
  shows "Handoffs simH cs = Some (Sim_CurrentTime sim + (2 + r) * Second)"
    and "map_option OutboundHandoffController (Aircraft simH cs) = Some (ctrl_Callsign ctrl)"
proof -
  have a: "wrap64 (2 + r) = 2 + r"
    using assms(3,4) by (intro wrap64_id) auto
  have b: "wrap64 ((2 + r) * Second) = (2 + r) * Second"
    using assms(3,4) by (intro wrap64_id) (auto simp: Second_def)
  show "Handoffs simH cs = Some (Sim_CurrentTime sim + (2 + r) * Second)"
    using assms(1,2) a b
    by (auto simp: Sim_Handoff_def Let_def Post_def Sim_CurrentTime_def
        split: option.splits if_splits)
  show "map_option OutboundHandoffController (Aircraft simH cs) = Some (ctrl_Callsign ctrl)"
    using assms(1,2)
    by (auto simp: Sim_Handoff_def Let_def Post_def split: option.splits if_splits)
qed

text \<open>
  Claim C4, amended. Take the record that a successful \<open>Handoff\<close> to a controller
  found by \<open>GetController\<close> has made for \<open>cs\<close>, with deadline the time of the call
  plus \<open>2 + rand.Intn(10)\<close> seconds, and a later tick at which the record is still
  the one in \<open>sim.Handoffs\<close>; let every aircraft have a flight plan and the loop
  visit the keys in any order. On a tick whose current time is after the deadline the
  record is removed. If the aircraft is in the registry and its outbound handoff
  controller is still the one \<open>Handoff\<close> set, its tracking controller becomes that
  destination controller, its outbound handoff controller is cleared, its assigned
  altitude becomes the altitude of its flight plan, and an acceptance event naming
  the destination is among the events posted during the tick. If the aircraft is no
  longer in the registry, nothing but the removal of the record happens and no
  acceptance event for the callsign is posted. On a tick whose current time is not
  after the deadline the record and the aircraft are as they were.
\<close>

theorem Handoff_resolved_at_deadline:
  assumes "Sim_Handoff sim cs controller r = Inr simH"
    and "Sim_GetController sim controller = Some ctrl"
    and "0 \<le> r" and "r < 10"
    and "Handoffs simT cs = Handoffs simH cs"
    and "distinct ks" and "set ks = dom (Handoffs simT)"
    and "\<forall>c a. Aircraft simT c = Some a \<longrightarrow> FlightPlan a \<noteq> None"
  shows "\<exists>sim2. updateState_handoffs ks simT = Inr sim2 \<and>
           (Sim_CurrentTime simT > Sim_CurrentTime sim + (2 + r) * Second \<longrightarrow>
              Handoffs sim2 cs = None \<and>
              (\<forall>ac fp. Aircraft simT cs = Some ac \<and> FlightPlan ac = Some fp \<and>
                  map_option OutboundHandoffController (Aircraft simH cs)
                    = Some (OutboundHandoffController ac) \<longrightarrow>
                 Aircraft sim2 cs = Some (ac\<lparr>TrackingController := ctrl_Callsign ctrl,
                                             OutboundHandoffController := [],
                                             AssignedAltitude := Altitude fp\<rparr>) \<and>
                 AcceptedHandoffEvent (ctrl_Callsign ctrl) cs
                   \<in> set (drop (length (eventStream simT)) (eventStream sim2))) \<and>
              (Aircraft simT cs = None \<longrightarrow>
                 Aircraft sim2 cs = None \<and>
                 (\<forall>c. AcceptedHandoffEvent c cs
                    \<notin> set (drop (length (eventStream simT)) (eventStream sim2))))) \<and>
           (Sim_CurrentTime simT \<le> Sim_CurrentTime sim + (2 + r) * Second \<longrightarrow>
              Handoffs sim2 cs = Some (Sim_CurrentTime sim + (2 + r) * Second) \<and>
              Aircraft sim2 cs = Aircraft simT cs)"
proof -
  let ?now = "Sim_CurrentTime simT"
  let ?t = "Sim_CurrentTime sim + (2 + r) * Second"
  note ho = Sim_Handoff_success [OF assms(1-4)]
  have rec: "Handoffs simT cs = Some ?t"
    using assms(5) ho(1) by simp
  from acceptHandoffs_run [OF assms(6,8), of ?now]
  obtain sim2 where run: "acceptHandoffs ?now ks simT = Inr sim2"
    and h: "Handoffs sim2 = (\<lambda>c. if c \<in> set ks \<and> due ?now simT c then None else Handoffs simT c)"
    and a: "Aircraft sim2 = (\<lambda>c. if c \<in> set ks \<and> due ?now simT c
                                 then map_option accepted (Aircraft simT c) else Aircraft simT c)"
    and e: "eventStream sim2 = eventStream simT @ map (acceptedEvent simT) (acceptances ?now simT ks)"
    by blast
  have cs: "cs \<in> set ks"
    using assms(7) rec by auto
  have d: "due ?now simT cs \<longleftrightarrow> ?now > ?t"
    using rec by (simp add: due_def)
  have early: "Handoffs sim2 cs = Some ?t \<and> Aircraft sim2 cs = Aircraft simT cs" if "?now \<le> ?t"
    using that d rec by (simp add: h a)
  have gone: "Handoffs sim2 cs = None" if "?now > ?t"
    using that d cs by (simp add: h)
  have acc: "Aircraft sim2 cs = Some (ac\<lparr>TrackingController := ctrl_Callsign ctrl,
                                             OutboundHandoffController := [],
                                             AssignedAltitude := Altitude fp\<rparr>) \<and>
             AcceptedHandoffEvent (ctrl_Callsign ctrl) cs
                   \<in> set (drop (length (eventStream simT)) (eventStream sim2))"
    if "?now > ?t" and "Aircraft simT cs = Some ac" and "FlightPlan ac = Some fp"
      and "map_option OutboundHandoffController (Aircraft simH cs)
             = Some (OutboundHandoffController ac)" for ac fp
  proof -
    have o: "OutboundHandoffController ac = ctrl_Callsign ctrl"
      using that(4) ho(2) by simp
    have "cs \<in> set (acceptances ?now simT ks)"
      using that d cs by (simp add: acceptances_def)
    then have "acceptedEvent simT cs \<in> set (map (acceptedEvent simT) (acceptances ?now simT ks))"
      by simp
    moreover have "acceptedEvent simT cs = AcceptedHandoffEvent (ctrl_Callsign ctrl) cs"
      using that o by (simp add: acceptedEvent_def)
    ultimately show ?thesis
      using that d cs o by (simp add: a e accepted_def)
  qed
  have del: "Aircraft sim2 cs = None \<and>
             (\<forall>c. AcceptedHandoffEvent c cs
                \<notin> set (drop (length (eventStream simT)) (eventStream sim2)))"
    if "Aircraft simT cs = None"
  proof -
    have "cs \<notin> set (acceptances ?now simT ks)"
      using that by (simp add: acceptances_def)
    then have "AcceptedHandoffEvent c cs \<notin> set (map (acceptedEvent simT) (acceptances ?now simT ks))" for c
      by (auto simp: acceptedEvent_def)
    then show ?thesis
      using that by (simp add: a e)
  qed
  show ?thesis
    unfolding updateState_handoffs_def using run early gone acc del by simp
qed

theorem Handoff_resolved_at_deadline_witness:
  "(\<exists>sim2. updateState_handoffs [''AAL123''] (sim_handed\<lparr>currentTime := 1006 * Second\<rparr>) = Inr sim2 \<and>
      Handoffs sim2 ''AAL123'' = None \<and>
      Aircraft sim2 ''AAL123'' = Some (ac_AAL123\<lparr>TrackingController := ''NY_CTR'',
         OutboundHandoffController := [], AssignedAltitude := 35000\<rparr>) \<and>
      AcceptedHandoffEvent ''NY_CTR'' ''AAL123'' \<in> set (eventStream sim2)) \<and>
   (\<exists>sim2. updateState_handoffs [''AAL123''] sim_deleted = Inr sim2 \<and>
      Handoffs sim2 ''AAL123'' = None \<and> Aircraft sim2 ''AAL123'' = None) \<and>
   (\<exists>sim2. updateState_handoffs [''AAL123''] (sim_handed\<lparr>currentTime := 1005 * Second\<rparr>) = Inr sim2 \<and>
      Handoffs sim2 ''AAL123'' = Some (1005 * Second) \<and>
      Aircraft sim2 ''AAL123'' = Aircraft sim_handed ''AAL123'')"
proof -
  note f = sim_handed_fields
  have g: "Sim_GetController sim0 ''NY_CTR'' = Some ctrl_NY"
    by (simp add: sim0_def Sim_GetController_def)
  have r: "(0::int) \<le> 3" "(3::int) < 10"
    by simp_all
  have d: "distinct [''AAL123'']"
    by simp
  have del: "Sim_DeleteAircraft sim_handed ''AAL123''
      = Inr ((Post (RemovedAircraftEvent ''AAL123'') sim_handed)
               \<lparr>Aircraft := (Aircraft sim_handed)(''AAL123'' := None)\<rparr>)"
    by (simp add: Sim_DeleteAircraft_def f Post_def Let_def)
  let ?late = "sim_handed\<lparr>currentTime := 1006 * Second\<rparr>"
  let ?at = "sim_handed\<lparr>currentTime := 1005 * Second\<rparr>"
  have k: "set [''AAL123''] = dom (Handoffs ?late)" "set [''AAL123''] = dom (Handoffs sim_deleted)"
    "set [''AAL123''] = dom (Handoffs ?at)"
    by (simp_all add: f sim_deleted_def del Post_def)
  have same: "Handoffs ?late ''AAL123'' = Handoffs sim_handed ''AAL123''"
    "Handoffs sim_deleted ''AAL123'' = Handoffs sim_handed ''AAL123''"
    "Handoffs ?at ''AAL123'' = Handoffs sim_handed ''AAL123''"
    by (simp_all add: sim_deleted_def del Post_def)
  have ac: "Aircraft sim_handed = [''AAL123'' \<mapsto> ac_AAL123\<lparr>OutboundHandoffController := ''NY_CTR''\<rparr>,
        ''DAL88'' \<mapsto> ac_DAL88, ''N5GX'' \<mapsto> ac_N5GX]"
    by (simp add: sim_handed_def Sim_Handoff_def sim0_def Sim_GetController_def Let_def Post_def
        TrackingController_AAL123 ctrl_NY_def fun_eq_iff)
  have fp: "\<forall>c a. Aircraft ?late c = Some a \<longrightarrow> FlightPlan a \<noteq> None"
    "\<forall>c a. Aircraft sim_deleted c = Some a \<longrightarrow> FlightPlan a \<noteq> None"
    "\<forall>c a. Aircraft ?at c = Some a \<longrightarrow> FlightPlan a \<noteq> None"
    by (auto simp: ac sim_deleted_def del Post_def ac_AAL123_def ac_DAL88_def ac_N5GX_def
        split: if_splits)
  note t1 = Handoff_resolved_at_deadline [OF sim_handed_eq g r same(1) d k(1) fp(1)]
  note t2 = Handoff_resolved_at_deadline [OF sim_handed_eq g r same(2) d k(2) fp(2)]
  note t3 = Handoff_resolved_at_deadline [OF sim_handed_eq g r same(3) d k(3) fp(3)]
  have now: "currentTime sim0 = 1000000000000" "currentTime sim_deleted = 1006000000000"
    by (simp_all add: sim0_def sim_deleted_def del Post_def Second_def)
  have a1: "Aircraft ?late ''AAL123'' = Some (ac_AAL123\<lparr>OutboundHandoffController := ''NY_CTR''\<rparr>)"
    "Aircraft sim_deleted ''AAL123'' = None"
    by (simp_all add: f sim_deleted_def del Post_def)
  from t1 obtain s1 where s1: "updateState_handoffs [''AAL123''] ?late = Inr s1"
    "Handoffs s1 ''AAL123'' = None"
    "Aircraft s1 ''AAL123'' = Some (ac_AAL123\<lparr>TrackingController := ''NY_CTR'',
         OutboundHandoffController := [], AssignedAltitude := 35000\<rparr>)"
    "AcceptedHandoffEvent ''NY_CTR'' ''AAL123'' \<in> set (eventStream s1)"
    by (auto simp: Sim_CurrentTime_def now a1 f ac_AAL123_def ctrl_NY_def Second_def
        dest: in_set_dropD)
  from t2 obtain s2 where s2: "updateState_handoffs [''AAL123''] sim_deleted = Inr s2"
    "Handoffs s2 ''AAL123'' = None" "Aircraft s2 ''AAL123'' = None"
    by (auto simp: Sim_CurrentTime_def now a1 Second_def)
  from t3 obtain s3 where s3: "updateState_handoffs [''AAL123''] ?at = Inr s3"
    "Handoffs s3 ''AAL123'' = Some (1005 * Second)"
    "Aircraft s3 ''AAL123'' = Aircraft sim_handed ''AAL123''"
    by (auto simp: Sim_CurrentTime_def now Second_def)
  from s1 s2 s3 show ?thesis
    by blast
qed

section \<open>Message dispatch in the adapter\<close>

text \<open>
  The loop over the specification table counts the matching specifications and applies
  their handlers from left to right; receiving a line is the dispatch worded above.
\<close>

lemma strings_Split_nonempty: "strings_Split s \<noteq> []"
  by (induction s) (auto split: list.splits)

lemma stripLeading_Nil: "stripLeading qs [] = []"
proof -
  have "find (\<lambda>q. q \<noteq> [] \<and> take (length q) [] = q) qs = None"
    by (auto simp: find_None_iff)
  then show ?thesis
    by simp
qed

lemma strings_TrimSpace_Nil: "strings_TrimSpace [] = []"
  by (simp add: strings_TrimSpace_def stripLeading_Nil del: stripLeading.simps)

lemma matchSpecs_dispatch:
  "matchSpecs specs strs contents n v
     = (n + length (matching specs strs), foldl (invoke contents strs) v (matching specs strs))"
proof (induction specs arbitrary: n v)
  case Nil
  then show ?case by (simp add: matching_def)
next
  case (Cons spec specs)
  show ?case
  proof (cases "Match spec strs")
    case None
    then show ?thesis
      using Cons.IH by (simp add: matching_def)
  next
    case (Some m)
    obtain sender args where m: "m = (sender, args)"
      by (cases m)
    show ?thesis
    proof (cases "handler spec")
      case None
      with Some m show ?thesis
        using Cons.IH by (simp add: matching_def invoke_def)
    next
      case (Some h)
      obtain err v' where h: "h v sender args = (err, v')"
        by (cases "h v sender args")
      from \<open>Match spec strs = Some m\<close> m Some h show ?thesis
        using Cons.IH by (cases err) (simp_all add: matching_def invoke_def)
    qed
  qed
qed

lemma receive_dispatch: "receive specs logTraffic contents v = dispatch specs logTraffic v contents"
proof -
  let ?strs = "strings_Split (strings_TrimSpace contents)"
  have ne: "?strs \<noteq> []"
    by (rule strings_Split_nonempty)
  then have 0: "?strs ! 0 = hd ?strs"
    by (simp add: hd_conv_nth)
  show ?thesis
    using ne 0
    by (simp add: receive_def dispatch_def malformed_def Let_def matchSpecs_dispatch)
qed

lemma receiveAll_dispatch:
  "receiveAll specs logTraffic messages v = foldl (dispatch specs logTraffic) v messages"
  by (induction messages arbitrary: v) (simp_all add: receive_dispatch)

text \<open>
  Claim C8. With a connection, \<open>GetUpdates\<close> receives the batch by dispatching each
  line in turn (and then calls the update callback, if any): for a line that is not
  malformed, every specification of the table that matches it has its handler applied,
  in table order. The empty line is malformed; a malformed line only adds a log line,
  so the registry and every other field of the server are as before; a line that no
  specification matches only adds the log line \<open>No rule matched\<close> (with traffic
  logging off; with it on, the \<open>Received\<close> line precedes it).
\<close>

theorem GetUpdates_receive_dispatch:
  assumes "connection v = Some conn"
  shows "GetUpdates_receive specs vatsimUpdateCallback logTraffic v
           = (case vatsimUpdateCallback of None \<Rightarrow> (\<lambda>v. v) | Some cb \<Rightarrow> cb)
               (foldl (dispatch specs logTraffic) v (GetMessages conn)) \<and>
         malformed [] \<and>
         (\<forall>v contents. malformed contents \<longrightarrow>
            dispatch specs logTraffic v contents = v\<lparr>vlg := vlg v @ [EmptyFirstField contents]\<rparr>) \<and>
         (\<forall>v contents. \<not> malformed contents \<and> \<not> logTraffic \<and>
              (\<forall>spec \<in> set specs. Match spec (strings_Split (strings_TrimSpace contents)) = None) \<longrightarrow>
            dispatch specs logTraffic v contents = v\<lparr>vlg := vlg v @ [NoRuleMatched contents]\<rparr>)"
proof -
  have 1: "GetUpdates_receive specs vatsimUpdateCallback logTraffic v
           = (case vatsimUpdateCallback of None \<Rightarrow> (\<lambda>v. v) | Some cb \<Rightarrow> cb)
               (foldl (dispatch specs logTraffic) v (GetMessages conn))"
    using assms
    by (simp add: GetUpdates_receive_def receiveAll_dispatch Let_def split: option.splits)
  have 2: "malformed []"
    by (simp add: malformed_def strings_TrimSpace_Nil)
  have 3: "dispatch specs logTraffic v contents = v\<lparr>vlg := vlg v @ [EmptyFirstField contents]\<rparr>"
    if "malformed contents" for v contents
    using that by (simp add: dispatch_def Printf_def)
  have 4: "dispatch specs logTraffic v contents = v\<lparr>vlg := vlg v @ [NoRuleMatched contents]\<rparr>"
    if "\<not> malformed contents" and "\<not> logTraffic"
      and "\<forall>spec \<in> set specs. Match spec (strings_Split (strings_TrimSpace contents)) = None"
    for v contents
  proof -
    have "matching specs (strings_Split (strings_TrimSpace contents)) = []"
      using that(3) by (simp add: matching_def filter_empty_conv)
    then show ?thesis
      using that by (simp add: dispatch_def Printf_def Let_def)
  qed
  from 1 2 3 4 show ?thesis
    by blast
qed

theorem GetUpdates_receive_dispatch_witness:
  "trackingControllers (GetUpdates_receive [spec_track, spec_seen, spec_ping] None False vatsim_rx) ''N5GX''
     = Some ''NY_CTR'' \<and>
   vlg (GetUpdates_receive [spec_track, spec_seen, spec_ping] None False vatsim_rx)
     = [EmptyFirstField [], EmptyFirstField '' :x'', NoRuleMatched ''HELLO:1'',
        FSDMessageError ''unsupported'' ''PING''] \<and>
   aircraft (GetUpdates_receive [spec_track, spec_seen, spec_ping] None False vatsim_rx)
     = aircraft vatsim_rx"
proof -
  have c: "connection vatsim_rx = Some \<lparr>GetMessages =
       [''TRACK:NY_CTR:N5GX'', [], '' :x'', ''HELLO:1'', ''PING''],
       conn_CurrentTime = 5000 * Minute\<rparr>"
    by (simp add: vatsim_rx_def)
  have s1: "strings_Split (strings_TrimSpace ''TRACK:NY_CTR:N5GX'') = [''TRACK'', ''NY_CTR'', ''N5GX'']"
    by code_simp
  have s2: "strings_Split (strings_TrimSpace []) = [[]]"
    by code_simp
  have s3: "strings_Split (strings_TrimSpace '' :x'') = [[], ''x'']"
    by code_simp
  have s4: "strings_Split (strings_TrimSpace ''HELLO:1'') = [''HELLO'', ''1'']"
    by code_simp
  have s5: "strings_Split (strings_TrimSpace ''PING'') = [''PING'']"
    by code_simp
  show ?thesis
    using GetUpdates_receive_dispatch [OF c, of "[spec_track, spec_seen, spec_ping]" None False]
    by (simp add: dispatch_def malformed_def s1 s2 s3 s4 s5 matching_def invoke_def Printf_def
        spec_track_def spec_seen_def spec_ping_def trackInitiated_def GetAircraft_def modified_def
        vatsim_rx_def vatsim0_def Let_def)
qed

section \<open>Eviction of stale aircraft\<close>

text \<open>
  The staleness test compares exact minutes with 30, which is a comparison of
  nanoseconds; the eviction loop over distinct keys removes exactly the stale aircraft
  among them from the four maps and reports one removal for each.
\<close>

lemma Duration_Minutes_exact: "Duration_Minutes d = of_int d / of_int Minute"
proof -
  have "of_int (quot_go d Minute) + of_int (d - Minute * quot_go d Minute) / (of_int Minute :: rat)
        = of_int d / of_int Minute"
    by (simp add: field_simps Minute_def Second_def)
  then show ?thesis
    by (simp add: Duration_Minutes_def rem_go_def Minute_def Second_def)
qed

lemma Minutes_gt_30: "Duration_Minutes d > 30 \<longleftrightarrow> d > 30 * Minute"
proof -
  have "(of_int d / of_int Minute > (30::rat)) \<longleftrightarrow> (of_int d > (30::rat) * of_int Minute)"
    by (simp add: pos_less_divide_eq Minute_def Second_def)
  also have "\<dots> \<longleftrightarrow> (of_int d > (of_int (30 * Minute) :: rat))"
    by simp
  also have "\<dots> \<longleftrightarrow> d > 30 * Minute"
    by (simp only: of_int_less_iff)
  finally show ?thesis
    by (simp add: Duration_Minutes_exact)
qed

lemma Sub_gt_30: "Duration_Minutes (Time_Sub now t) > 30 \<longleftrightarrow> now - t > 30 * Minute"
  by (auto simp: Minutes_gt_30 Time_Sub_def Minute_def Second_def)

lemma stale_iff:
  "stale now v cs \<longleftrightarrow> (\<exists>ac. aircraft v cs = Some ac \<and> now - tracks0_time ac > 30 * Minute)"
  by (auto simp: stale_def Sub_gt_30 split: option.splits)

lemma evict_step:
  "aircraft (evict now k v) = (\<lambda>cs. if cs = k \<and> stale now v k then None else aircraft v cs) \<and>
   trackingControllers (evict now k v)
     = (\<lambda>cs. if cs = k \<and> stale now v k then None else trackingControllers v cs) \<and>
   outboundHandoffs (evict now k v)
     = (\<lambda>cs. if cs = k \<and> stale now v k then None else outboundHandoffs v cs) \<and>
   inboundHandoffs (evict now k v)
     = (\<lambda>cs. if cs = k \<and> stale now v k then None else inboundHandoffs v cs) \<and>
   controlUpdates (evict now k v) = controlUpdates v @ map RemoveAircraft (filter (stale now v) [k]) \<and>
   callsign (evict now k v) = callsign v \<and> connection (evict now k v) = connection v \<and>
   controllers (evict now k v) = controllers v \<and> atcValid (evict now k v) = atcValid v \<and>
   controlDelegate (evict now k v) = controlDelegate v \<and> vlg (evict now k v) = vlg v"
  by (auto simp: evict_def stale_def fun_eq_iff split: option.splits)

lemma evictAll_run:
  assumes "distinct ks"
  shows "aircraft (evictAll now ks v)
           = (\<lambda>cs. if cs \<in> set ks \<and> stale now v cs then None else aircraft v cs) \<and>
         trackingControllers (evictAll now ks v)
           = (\<lambda>cs. if cs \<in> set ks \<and> stale now v cs then None else trackingControllers v cs) \<and>
         outboundHandoffs (evictAll now ks v)
           = (\<lambda>cs. if cs \<in> set ks \<and> stale now v cs then None else outboundHandoffs v cs) \<and>
         inboundHandoffs (evictAll now ks v)
           = (\<lambda>cs. if cs \<in> set ks \<and> stale now v cs then None else inboundHandoffs v cs) \<and>
         controlUpdates (evictAll now ks v)
           = controlUpdates v @ map RemoveAircraft (filter (stale now v) ks) \<and>
         callsign (evictAll now ks v) = callsign v \<and> connection (evictAll now ks v) = connection v \<and>
         controllers (evictAll now ks v) = controllers v \<and> atcValid (evictAll now ks v) = atcValid v \<and>
         controlDelegate (evictAll now ks v) = controlDelegate v \<and> vlg (evictAll now ks v) = vlg v"
  using assms
proof (induction ks arbitrary: v)
  case Nil
  then show ?case by simp
next
  case (Cons k ks)
  let ?v1 = "evict now k v"
  have k: "k \<notin> set ks" and d: "distinct ks"
    using Cons.prems by auto
  note s = evict_step [of now k v]
  have st: "stale now ?v1 cs = stale now v cs" if "cs \<in> set ks" for cs
  proof -
    from that k have "cs \<noteq> k" by auto
    then show ?thesis using s by (simp add: stale_def)
  qed
  have f: "filter (stale now ?v1) ks = filter (stale now v) ks"
    by (rule filter_cong[OF refl]) (simp add: st)
  note ih = Cons.IH [OF d, of ?v1]
  show ?case
    using ih k s by (auto simp: f st fun_eq_iff)
qed
lemma count_list_distinct: "distinct xs \<Longrightarrow> count_list xs x = (if x \<in> set xs then 1 else 0)"
  by (induction xs) auto

lemma count_RemoveAircraft:
  assumes "distinct ks"
  shows "count_list (map RemoveAircraft (filter P ks)) (RemoveAircraft cs)
           = (if cs \<in> set ks \<and> P cs then 1 else 0)"
proof -
  have "inj RemoveAircraft"
    by (simp add: inj_on_def)
  then have "count_list (map RemoveAircraft (filter P ks)) (RemoveAircraft cs)
               = count_list (filter P ks) cs"
    by (rule count_list_map_conv)
  also have "\<dots> = (if cs \<in> set (filter P ks) then 1 else 0)"
    using assms by (intro count_list_distinct) simp
  finally show ?thesis
    by simp
qed

text \<open>
  Claim C9. Let \<open>v1\<close> be the server after \<open>GetUpdates\<close> has received the batch,
  and let the eviction loop visit the keys of its registry in any order. An aircraft
  last heard from more than 30 minutes before the session's current time is absent,
  after \<open>GetUpdates\<close>, from the registry, the tracking-controller map and both
  handoff maps, and exactly one removal of it has been reported; an aircraft heard from
  within 30 minutes keeps its entries, and no removal of it is reported.
\<close>

theorem GetUpdates_evicts_stale:
  assumes "v1 = GetUpdates_receive specs vatsimUpdateCallback logTraffic v"
    and "distinct ks" and "set ks = dom (aircraft v1)"
    and "v2 = VATSIMServer_GetUpdates specs vatsimUpdateCallback logTraffic ks v"
    and "aircraft v1 cs = Some ac"
  shows "(VATSIMServer_CurrentTime v1 - tracks0_time ac > 30 * Minute \<longrightarrow>
            aircraft v2 cs = None \<and> trackingControllers v2 cs = None \<and>
            outboundHandoffs v2 cs = None \<and> inboundHandoffs v2 cs = None \<and>
            count_list (drop (length (controlUpdates v1)) (controlUpdates v2)) (RemoveAircraft cs) = 1) \<and>
         (VATSIMServer_CurrentTime v1 - tracks0_time ac \<le> 30 * Minute \<longrightarrow>
            aircraft v2 cs = Some ac \<and> trackingControllers v2 cs = trackingControllers v1 cs \<and>
            outboundHandoffs v2 cs = outboundHandoffs v1 cs \<and>
            inboundHandoffs v2 cs = inboundHandoffs v1 cs \<and>
            count_list (drop (length (controlUpdates v1)) (controlUpdates v2)) (RemoveAircraft cs) = 0)"
proof -
  let ?now = "VATSIMServer_CurrentTime v1"
  have v2: "v2 = evictAll ?now ks v1"
    using assms(1,4) by (simp add: VATSIMServer_GetUpdates_def Let_def)
  note run = evictAll_run [OF assms(2), of ?now v1, folded v2]
  have cs: "cs \<in> set ks"
    using assms(3,5) by auto
  have st: "stale ?now v1 cs \<longleftrightarrow> ?now - tracks0_time ac > 30 * Minute"
    using assms(5) by (simp add: stale_iff)
  have n: "count_list (drop (length (controlUpdates v1)) (controlUpdates v2)) (RemoveAircraft cs)
             = (if stale ?now v1 cs then 1 else 0)"
    using run cs by (simp add: count_RemoveAircraft [OF assms(2)])
  show ?thesis
    using run cs st n assms(5) by auto
qed

theorem GetUpdates_evicts_stale_witness:
  "aircraft (VATSIMServer_GetUpdates [] None False [''DAL88'', ''N5GX'', ''AAL123''] vatsim0) ''N5GX'' = None \<and>
   trackingControllers (VATSIMServer_GetUpdates [] None False [''DAL88'', ''N5GX'', ''AAL123''] vatsim0) ''N5GX'' = None \<and>
   count_list (controlUpdates (VATSIMServer_GetUpdates [] None False [''DAL88'', ''N5GX'', ''AAL123''] vatsim0))
     (RemoveAircraft ''N5GX'') = 1 \<and>
   aircraft (VATSIMServer_GetUpdates [] None False [''DAL88'', ''N5GX'', ''AAL123''] vatsim0) ''DAL88''
     = aircraft vatsim0 ''DAL88'' \<and>
   inboundHandoffs (VATSIMServer_GetUpdates [] None False [''DAL88'', ''N5GX'', ''AAL123''] vatsim0) ''DAL88''
     = Some ''JFK_APP'' \<and>
   count_list (controlUpdates (VATSIMServer_GetUpdates [] None False [''DAL88'', ''N5GX'', ''AAL123''] vatsim0))
     (RemoveAircraft ''DAL88'') = 0"
proof -
  have r: "vatsim0 = GetUpdates_receive [] None False vatsim0"
    by (simp add: GetUpdates_receive_def vatsim0_def)
  have d: "distinct [''DAL88'', ''N5GX'', ''AAL123'']"
    by simp
  have k: "set [''DAL88'', ''N5GX'', ''AAL123''] = dom (aircraft vatsim0)"
    by (auto simp: vatsim0_def split: if_splits)
  have a: "aircraft vatsim0 ''N5GX'' = Some \<lparr>scratchpad = [], tracks0_time = 4000 * Minute\<rparr>"
    and b: "aircraft vatsim0 ''DAL88'' = Some \<lparr>scratchpad = ''LGA'', tracks0_time = 4970 * Minute\<rparr>"
    by (simp_all add: vatsim0_def)
  have t: "VATSIMServer_CurrentTime vatsim0 = 5000 * Minute"
    by (simp add: VATSIMServer_CurrentTime_def vatsim0_def)
  have e: "controlUpdates vatsim0 = []" "inboundHandoffs vatsim0 ''DAL88'' = Some ''JFK_APP''"
    by (simp_all add: vatsim0_def)
  show ?thesis
    using GetUpdates_evicts_stale [OF r d k refl a] GetUpdates_evicts_stale [OF r d k refl b]
    by (simp add: t e b Minute_def Second_def)
qed

section \<open>The two implementations compared\<close>

text \<open>
  What being in the same state gives for one callsign, and how it is re-established
  after both sides have changed the entries of one callsign only.
\<close>

lemma same_state_sides:
  assumes "same_state sim v"
  shows "\<exists>sc. Scenario sim = Some sc \<and> Callsign sc = callsign v"
    and "(Aircraft sim cs = None \<and> aircraft v cs = None) \<or>
         (\<exists>ac vac. Aircraft sim cs = Some ac \<and> aircraft v cs = Some vac \<and> same_aircraft v cs ac vac)"
proof -
  show "\<exists>sc. Scenario sim = Some sc \<and> Callsign sc = callsign v"
    using assms by (auto simp: same_state_def)
  have "rel_option (same_aircraft v cs) (Aircraft sim cs) (aircraft v cs)"
    using assms by (simp add: same_state_def)
  then show "(Aircraft sim cs = None \<and> aircraft v cs = None) \<or>
         (\<exists>ac vac. Aircraft sim cs = Some ac \<and> aircraft v cs = Some vac \<and> same_aircraft v cs ac vac)"
    by (cases "Aircraft sim cs"; cases "aircraft v cs") auto
qed

lemma same_state_after:
  assumes "same_state sim v"
    and "Scenario sim' = Scenario sim" and "callsign v' = callsign v"
    and "\<And>c. c \<noteq> cs \<Longrightarrow> Aircraft sim' c = Aircraft sim c \<and> aircraft v' c = aircraft v c \<and>
            trackingControllers v' c = trackingControllers v c \<and>
            outboundHandoffs v' c = outboundHandoffs v c \<and>
            inboundHandoffs v' c = inboundHandoffs v c"
    and "Aircraft sim' cs = Some ac'" and "aircraft v' cs = Some vac'"
    and "same_aircraft v' cs ac' vac'"
  shows "same_state sim' v'"
  unfolding same_state_def
proof (intro conjI allI)
  show "map_option Callsign (Scenario sim') = Some (callsign v')"
    using assms(1,2,3) by (simp add: same_state_def)
  fix c
  show "rel_option (same_aircraft v' c) (Aircraft sim' c) (aircraft v' c)"
  proof (cases "c = cs")
    case True
    then show ?thesis
      using assms(5,6,7) by simp
  next
    case False
    have "rel_option (same_aircraft v c) (Aircraft sim c) (aircraft v c)"
      using assms(1) by (simp add: same_state_def)
    moreover have "same_aircraft v' c = same_aircraft v c"
      using assms(4)[OF False] by (simp add: same_aircraft_def fun_eq_iff)
    ultimately show ?thesis
      using assms(4)[OF False] by simp
  qed
qed

lemma agree_InitiateTrack:
  assumes "same_state sim v" and "atcValid v" and "callsign v \<noteq> []"
    and "common_ground CmdInitiateTrack sim v cs"
  shows "same_outcome (Sim_InitiateTrack sim cs) (VATSIMServer_InitiateTrack v cs)"
proof -
  from same_state_sides(1)[OF assms(1)] obtain sc
    where sc: "Scenario sim = Some sc" "Callsign sc = callsign v" by blast
  from same_state_sides(2)[OF assms(1), of cs] show ?thesis
  proof (elim disjE conjE exE)
    assume "Aircraft sim cs = None" "aircraft v cs = None"
    then show ?thesis
      using assms(2)
      by (simp add: same_outcome_def Sim_InitiateTrack_def VATSIMServer_InitiateTrack_def GetAircraft_def)
  next
    fix ac vac
    assume a: "Aircraft sim cs = Some ac" "aircraft v cs = Some vac" "same_aircraft v cs ac vac"
    have t: "trackingControllers v cs = opt_name (TrackingController ac)"
      using a(3) by (simp add: same_aircraft_def)
    have notme: "TrackingController ac \<noteq> callsign v"
      using assms(4) a(1) by (simp add: common_ground_def)
    show ?thesis
    proof (cases "TrackingController ac = []")
      case False
      then have "trackedByAnotherController v cs"
        using t notme by (auto simp: trackedByAnotherController_def opt_name_def split: if_splits)
      then show ?thesis
        using a False assms(2)
        by (simp add: same_outcome_def Sim_InitiateTrack_def VATSIMServer_InitiateTrack_def GetAircraft_def)
    next
      case True
      then have nt: "\<not> trackedByAnotherController v cs"
        using t by (auto simp: trackedByAnotherController_def opt_name_def split: if_splits option.splits)
      let ?sim' = "Post (InitiatedTrackEvent cs) (Post (ModifiedAircraftEvent cs)
                     (sim\<lparr>Aircraft := (Aircraft sim)(cs \<mapsto> ac\<lparr>TrackingController := Callsign sc\<rparr>)\<rparr>))"
      let ?v' = "delegate (Delegate_InitiateTrack cs)
                 (modified cs (v\<lparr>trackingControllers := (trackingControllers v)(cs \<mapsto> callsign v)\<rparr>))"
      have "same_state ?sim' ?v'"
        by (rule same_state_after[OF assms(1), where cs = cs])
           (use a sc assms(3) in \<open>auto simp: Post_def delegate_def modified_def same_aircraft_def opt_name_def\<close>)
      then show ?thesis
        using a True nt sc assms(2)
        by (simp add: same_outcome_def Sim_InitiateTrack_def VATSIMServer_InitiateTrack_def GetAircraft_def)
    qed
  qed
qed

lemma agree_DropTrack:
  assumes "same_state sim v" and "atcValid v" and "callsign v \<noteq> []"
    and "common_ground CmdDropTrack sim v cs"
  shows "same_outcome (Sim_DropTrack sim cs) (VATSIMServer_DropTrack v cs)"
proof -
  from same_state_sides(1)[OF assms(1)] obtain sc
    where sc: "Scenario sim = Some sc" "Callsign sc = callsign v" by blast
  from same_state_sides(2)[OF assms(1), of cs] show ?thesis
  proof (elim disjE conjE exE)
    assume "Aircraft sim cs = None" "aircraft v cs = None"
    then show ?thesis
      using assms(2)
      by (simp add: same_outcome_def Sim_DropTrack_def VATSIMServer_DropTrack_def GetAircraft_def)
  next
    fix ac vac
    assume a: "Aircraft sim cs = Some ac" "aircraft v cs = Some vac" "same_aircraft v cs ac vac"
    have t: "trackingControllers v cs = opt_name (TrackingController ac)"
      using a(3) by (simp add: same_aircraft_def)
    have tracked: "TrackingController ac \<noteq> []"
      using assms(4) a(1) by (simp add: common_ground_def)
    have tb: "trackedByAnotherController v cs \<longleftrightarrow> TrackingController ac \<noteq> callsign v"
      using t tracked by (simp add: trackedByAnotherController_def opt_name_def)
    show ?thesis
    proof (cases "TrackingController ac = callsign v")
      case False
      then show ?thesis
        using a tb sc assms(2)
        by (simp add: same_outcome_def Sim_DropTrack_def VATSIMServer_DropTrack_def GetAircraft_def)
    next
      case True
      let ?sim' = "Post (DroppedTrackEvent cs) (Post (ModifiedAircraftEvent cs)
                     (sim\<lparr>Aircraft := (Aircraft sim)(cs \<mapsto> ac\<lparr>TrackingController := []\<rparr>)\<rparr>))"
      let ?v' = "delegate (Delegate_DropTrack cs)
                 (modified cs (v\<lparr>trackingControllers := (trackingControllers v)(cs := None)\<rparr>))"
      have "same_state ?sim' ?v'"
        by (rule same_state_after[OF assms(1), where cs = cs])
           (use a sc in \<open>auto simp: Post_def delegate_def modified_def same_aircraft_def opt_name_def\<close>)
      then show ?thesis
        using a True tb sc assms(2)
        by (simp add: same_outcome_def Sim_DropTrack_def VATSIMServer_DropTrack_def GetAircraft_def)
    qed
  qed
qed

lemma agree_SetScratchpad:
  assumes "same_state sim v" and "atcValid v" and "callsign v \<noteq> []"
    and "common_ground (CmdSetScratchpad sp) sim v cs"
  shows "same_outcome (Sim_SetScratchpad sim cs sp) (VATSIMServer_SetScratchpad v cs sp)"
proof -
  from same_state_sides(1)[OF assms(1)] obtain sc
    where sc: "Scenario sim = Some sc" "Callsign sc = callsign v" by blast
  from same_state_sides(2)[OF assms(1), of cs] show ?thesis
  proof (elim disjE conjE exE)
    assume "Aircraft sim cs = None" "aircraft v cs = None"
    then show ?thesis
      using assms(2)
      by (simp add: same_outcome_def Sim_SetScratchpad_def VATSIMServer_SetScratchpad_def GetAircraft_def)
  next
    fix ac vac
    assume a: "Aircraft sim cs = Some ac" "aircraft v cs = Some vac" "same_aircraft v cs ac vac"
    have t: "trackingControllers v cs = opt_name (TrackingController ac)"
      using a(3) by (simp add: same_aircraft_def)
    have tracked: "TrackingController ac \<noteq> []"
      and short: "TrackingController ac = callsign v \<Longrightarrow> length sp \<le> 3"
      using assms(4) a(1) by (auto simp: common_ground_def)
    have tb: "trackedByAnotherController v cs \<longleftrightarrow> TrackingController ac \<noteq> callsign v"
      using t tracked by (simp add: trackedByAnotherController_def opt_name_def)
    show ?thesis
    proof (cases "TrackingController ac = callsign v")
      case False
      then show ?thesis
        using a tb sc assms(2)
        by (simp add: same_outcome_def Sim_SetScratchpad_def VATSIMServer_SetScratchpad_def GetAircraft_def)
    next
      case True
      let ?sim' = "Post (ModifiedAircraftEvent cs)
                     (sim\<lparr>Aircraft := (Aircraft sim)(cs \<mapsto> ac\<lparr>Scratchpad := sp\<rparr>)\<rparr>)"
      let ?v' = "delegate (Delegate_SetScratchpad cs sp)
                 (modified cs (v\<lparr>aircraft := (aircraft v)(cs \<mapsto> vac\<lparr>scratchpad := sp\<rparr>)\<rparr>))"
      have "same_state ?sim' ?v'"
        by (rule same_state_after[OF assms(1), where cs = cs])
           (use a sc in \<open>auto simp: Post_def delegate_def modified_def same_aircraft_def opt_name_def\<close>)
      then show ?thesis
        using a True tb sc assms(2) short[OF True]
        by (simp add: same_outcome_def Sim_SetScratchpad_def VATSIMServer_SetScratchpad_def GetAircraft_def)
    qed
  qed
qed

lemma agree_AcceptHandoff:
  assumes "same_state sim v" and "atcValid v" and "callsign v \<noteq> []"
    and "common_ground CmdAcceptHandoff sim v cs"
  shows "same_outcome (Sim_AcceptHandoff sim cs) (VATSIMServer_AcceptHandoff v cs)"
proof -
  from same_state_sides(1)[OF assms(1)] obtain sc
    where sc: "Scenario sim = Some sc" "Callsign sc = callsign v" by blast
  from same_state_sides(2)[OF assms(1), of cs] show ?thesis
  proof (elim disjE conjE exE)
    assume "Aircraft sim cs = None" "aircraft v cs = None"
    then show ?thesis
      using assms(2)
      by (simp add: same_outcome_def Sim_AcceptHandoff_def VATSIMServer_AcceptHandoff_def GetAircraft_def)
  next
    fix ac vac
    assume a: "Aircraft sim cs = Some ac" "aircraft v cs = Some vac" "same_aircraft v cs ac vac"
    have i: "inboundHandoffs v cs = opt_name (InboundHandoffController ac)"
      using a(3) by (simp add: same_aircraft_def)
    have dom: "InboundHandoffController ac = [] \<or> InboundHandoffController ac = callsign v"
      using assms(4) a(1) by (simp add: common_ground_def)
    show ?thesis
    proof (cases "InboundHandoffController ac = callsign v")
      case False
      with dom have "InboundHandoffController ac = []" by simp
      then show ?thesis
        using a i False sc assms(2)
        by (simp add: same_outcome_def Sim_AcceptHandoff_def VATSIMServer_AcceptHandoff_def
            GetAircraft_def opt_name_def)
    next
      case True
      let ?sim' = "Post (ModifiedAircraftEvent cs) (Post (AcceptedHandoffEvent (Callsign sc) cs)
                     (sim\<lparr>Aircraft := (Aircraft sim)(cs \<mapsto>
                        ac\<lparr>InboundHandoffController := [], TrackingController := Callsign sc\<rparr>)\<rparr>))"
      let ?v1 = "delegate (Delegate_AcceptHandoff cs)
                 (modified cs (v\<lparr>trackingControllers := (trackingControllers v)(cs \<mapsto> callsign v)\<rparr>))"
      let ?v' = "?v1\<lparr>inboundHandoffs := (inboundHandoffs ?v1)(cs := None)\<rparr>"
      have "same_state ?sim' ?v'"
        by (rule same_state_after[OF assms(1), where cs = cs])
           (use a sc assms(3) in \<open>auto simp: Post_def delegate_def modified_def same_aircraft_def opt_name_def\<close>)
      then show ?thesis
        using a True i sc assms(2,3)
        by (simp add: same_outcome_def Sim_AcceptHandoff_def VATSIMServer_AcceptHandoff_def
            GetAircraft_def opt_name_def Let_def)
    qed
  qed
qed

lemma agree_Handoff:
  assumes "same_state sim v" and "atcValid v" and "callsign v \<noteq> []"
    and "common_ground (CmdHandoff controller) sim v cs"
  shows "same_outcome (Sim_Handoff sim cs controller r) (VATSIMServer_Handoff v cs controller)"
proof -
  from same_state_sides(1)[OF assms(1)] obtain sc
    where sc: "Scenario sim = Some sc" "Callsign sc = callsign v" by blast
  from same_state_sides(2)[OF assms(1), of cs] show ?thesis
  proof (elim disjE conjE exE)
    assume "Aircraft sim cs = None" "aircraft v cs = None"
    then show ?thesis
      using assms(2)
      by (simp add: same_outcome_def Sim_Handoff_def VATSIMServer_Handoff_def GetAircraft_def)
  next
    fix ac vac
    assume a: "Aircraft sim cs = Some ac" "aircraft v cs = Some vac" "same_aircraft v cs ac vac"
    have t: "trackingControllers v cs = opt_name (TrackingController ac)"
      using a(3) by (simp add: same_aircraft_def)
    have tracked: "TrackingController ac \<noteq> []"
      and known: "TrackingController ac = callsign v \<Longrightarrow> known_alike sim v controller"
      using assms(4) a(1) by (auto simp: common_ground_def)
    have tb: "trackedByAnotherController v cs \<longleftrightarrow> TrackingController ac \<noteq> callsign v"
      using t tracked by (simp add: trackedByAnotherController_def opt_name_def)
    show ?thesis
    proof (cases "TrackingController ac = callsign v")
      case False
      then show ?thesis
        using a tb sc assms(2)
        by (simp add: same_outcome_def Sim_Handoff_def VATSIMServer_Handoff_def GetAircraft_def)
    next
      case True
      note k = known[OF True]
      show ?thesis
      proof (cases "Sim_GetController sim controller")
        case None
        then have "VATSIMServer_GetController v controller = None"
          using k by (simp add: known_alike_def)
        then show ?thesis
          using a True tb sc assms(2) None
          by (simp add: same_outcome_def Sim_Handoff_def VATSIMServer_Handoff_def GetAircraft_def)
      next
        case (Some ctrl)
        then obtain c where c: "VATSIMServer_GetController v controller = Some c"
          and n: "ctrl_Callsign ctrl = controller" "controller \<noteq> []"
          using k by (auto simp: known_alike_def)
        let ?sim1 = "Post (ModifiedAircraftEvent cs)
                       (sim\<lparr>Aircraft := (Aircraft sim)(cs \<mapsto>
                          ac\<lparr>OutboundHandoffController := ctrl_Callsign ctrl\<rparr>)\<rparr>)"
        let ?sim' = "?sim1\<lparr>Handoffs := (Handoffs ?sim1)(cs \<mapsto>
                       Sim_CurrentTime ?sim1 + wrap64 (wrap64 (2 + r) * Second))\<rparr>"
        let ?v' = "delegate (Delegate_Handoff cs controller)
                   (modified cs (v\<lparr>outboundHandoffs := (outboundHandoffs v)(cs \<mapsto> controller)\<rparr>))"
        have "same_state ?sim' ?v'"
          by (rule same_state_after[OF assms(1), where cs = cs])
             (use a sc n in \<open>auto simp: Post_def delegate_def modified_def same_aircraft_def opt_name_def\<close>)
        then show ?thesis
          using a True tb sc assms(2) Some c
          by (simp add: same_outcome_def Sim_Handoff_def VATSIMServer_Handoff_def GetAircraft_def Let_def)
      qed
    qed
  qed
qed

lemma same_state_sim0_vatsim0: "same_state sim0 vatsim0"
  by (auto simp: same_state_def same_aircraft_def opt_name_def sim0_def vatsim0_def
      ac_AAL123_def ac_DAL88_def ac_N5GX_def)

text \<open>
  Claim C2 says that on equal states the two implementations return the same outcome
  for every operation. \<open>sim0\<close> and \<open>vatsim0\<close> are in the same state, with
  \<open>AAL123\<close> tracked by the user. \<open>InitiateTrack\<close> on it fails in the simulation
  (which refuses any aircraft that has a tracking controller) and succeeds in the
  adapter (which refuses only aircraft tracked by another controller).
\<close>

theorem implementations_differ_counterexample:
  "same_state sim0 vatsim0 \<and> atcValid vatsim0 \<and>
   Sim_call CmdInitiateTrack 0 sim0 ''AAL123'' = Inl (Error ErrOtherControllerHasTrack) \<and>
   \<not> isl (VATSIMServer_call CmdInitiateTrack vatsim0 ''AAL123'') \<and>
   \<not> same_outcome (Sim_call CmdInitiateTrack 0 sim0 ''AAL123'')
                   (VATSIMServer_call CmdInitiateTrack vatsim0 ''AAL123'')"
proof -
  have 1: "Sim_call CmdInitiateTrack 0 sim0 ''AAL123'' = Inl (Error ErrOtherControllerHasTrack)"
    by (simp add: Sim_call_def Sim_InitiateTrack_def sim0_def ac_AAL123_def)
  have 2: "\<not> isl (VATSIMServer_call CmdInitiateTrack vatsim0 ''AAL123'')"
    by (simp add: VATSIMServer_call_def VATSIMServer_InitiateTrack_def vatsim0_def GetAircraft_def
        trackedByAnotherController_def)
  have 3: "atcValid vatsim0"
    by (simp add: vatsim0_def)
  from 2 obtain v' where "VATSIMServer_call CmdInitiateTrack vatsim0 ''AAL123'' = Inr v'"
    by (cases "VATSIMServer_call CmdInitiateTrack vatsim0 ''AAL123''") auto
  with 1 have 4: "\<not> same_outcome (Sim_call CmdInitiateTrack 0 sim0 ''AAL123'')
                   (VATSIMServer_call CmdInitiateTrack vatsim0 ''AAL123'')"
    by (simp add: same_outcome_def)
  from same_state_sim0_vatsim0 1 2 3 4 show ?thesis
    by blast
qed

text \<open>
  Claim C2, amended: with the adapter signed in as a controller, under the user's
  non-empty callsign, on states that are the same, every command in the common ground
  has the same outcome in both implementations: the same error, or success with
  post-states that are again the same.
\<close>

theorem implementations_agree_on_common_ground:
  assumes "same_state sim v" and "atcValid v" and "callsign v \<noteq> []"
    and "common_ground cmd sim v cs"
  shows "same_outcome (Sim_call cmd r sim cs) (VATSIMServer_call cmd v cs)"
proof (cases cmd)
  case CmdInitiateTrack
  then show ?thesis
    using agree_InitiateTrack[OF assms(1-3)] assms(4) by (simp add: Sim_call_def VATSIMServer_call_def)
next
  case CmdDropTrack
  then show ?thesis
    using agree_DropTrack[OF assms(1-3)] assms(4) by (simp add: Sim_call_def VATSIMServer_call_def)
next
  case (CmdHandoff controller)
  then show ?thesis
    using agree_Handoff[OF assms(1-3)] assms(4) by (simp add: Sim_call_def VATSIMServer_call_def)
next
  case CmdAcceptHandoff
  then show ?thesis
    using agree_AcceptHandoff[OF assms(1-3)] assms(4) by (simp add: Sim_call_def VATSIMServer_call_def)
next
  case (CmdSetScratchpad sp)
  then show ?thesis
    using agree_SetScratchpad[OF assms(1-3)] assms(4) by (simp add: Sim_call_def VATSIMServer_call_def)
qed

theorem implementations_agree_on_common_ground_witness:
  "same_outcome (Sim_call CmdInitiateTrack 5 sim0 ''N5GX'')
                (VATSIMServer_call CmdInitiateTrack vatsim0 ''N5GX'') \<and>
   \<not> isl (Sim_call CmdInitiateTrack 5 sim0 ''N5GX'') \<and>
   same_outcome (Sim_call (CmdHandoff ''NY_CTR'') 5 sim0 ''AAL123'')
                (VATSIMServer_call (CmdHandoff ''NY_CTR'') vatsim0 ''AAL123'') \<and>
   \<not> isl (Sim_call (CmdHandoff ''NY_CTR'') 5 sim0 ''AAL123'') \<and>
   same_outcome (Sim_call CmdAcceptHandoff 5 sim0 ''DAL88'')
                (VATSIMServer_call CmdAcceptHandoff vatsim0 ''DAL88'') \<and>
   \<not> isl (Sim_call CmdAcceptHandoff 5 sim0 ''DAL88'') \<and>
   same_outcome (Sim_call CmdDropTrack 5 sim0 ''DAL88'')
                (VATSIMServer_call CmdDropTrack vatsim0 ''DAL88'') \<and>
   Sim_call CmdDropTrack 5 sim0 ''DAL88'' = Inl (Error ErrOtherControllerHasTrack)"
proof -
  note s = same_state_sim0_vatsim0
  have a: "atcValid vatsim0" and c: "callsign vatsim0 \<noteq> []"
    by (simp_all add: vatsim0_def)
  have g1: "common_ground CmdInitiateTrack sim0 vatsim0 ''N5GX''"
    by (simp add: common_ground_def sim0_def vatsim0_def ac_N5GX_def)
  have g2: "common_ground (CmdHandoff ''NY_CTR'') sim0 vatsim0 ''AAL123''"
    by (simp add: common_ground_def known_alike_def Sim_GetController_def
        VATSIMServer_GetController_def sim0_def vatsim0_def ac_AAL123_def ctrl_NY_def)
  have g3: "common_ground CmdAcceptHandoff sim0 vatsim0 ''DAL88''"
    by (simp add: common_ground_def sim0_def vatsim0_def ac_DAL88_def)
  have g4: "common_ground CmdDropTrack sim0 vatsim0 ''DAL88''"
    by (simp add: common_ground_def sim0_def vatsim0_def ac_DAL88_def)
  have r1: "\<not> isl (Sim_call CmdInitiateTrack 5 sim0 ''N5GX'')"
    by (simp add: Sim_call_def Sim_InitiateTrack_def sim0_def ac_N5GX_def)
  have r2: "\<not> isl (Sim_call (CmdHandoff ''NY_CTR'') 5 sim0 ''AAL123'')"
    by (simp add: Sim_call_def Sim_Handoff_def Sim_GetController_def sim0_def ac_AAL123_def Let_def)
  have r3: "\<not> isl (Sim_call CmdAcceptHandoff 5 sim0 ''DAL88'')"
    by (simp add: Sim_call_def Sim_AcceptHandoff_def sim0_def ac_DAL88_def)
  have r4: "Sim_call CmdDropTrack 5 sim0 ''DAL88'' = Inl (Error ErrOtherControllerHasTrack)"
    by (simp add: Sim_call_def Sim_DropTrack_def sim0_def ac_DAL88_def)
  show ?thesis
    using implementations_agree_on_common_ground [OF s a c g1, of 5]
      implementations_agree_on_common_ground [OF s a c g2, of 5]
      implementations_agree_on_common_ground [OF s a c g3, of 5]
      implementations_agree_on_common_ground [OF s a c g4, of 5]
      r1 r2 r3 r4
    by simp
qed

section \<open>Cancelling a handoff\<close>

text \<open>
  X2. \<open>Sim.CancelHandoff\<close> clears the aircraft's outbound handoff controller and
  leaves the pending record in \<open>sim.Handoffs\<close>. On a later tick whose current time
  is after the record's deadline the expiry loop still resolves the record: the
  aircraft's tracking controller becomes the (now empty) outbound handoff controller,
  so the aircraft ends untracked, and the record is removed.
\<close>

theorem cancelled_handoff_expires:
  assumes "Aircraft sim cs = Some ac" and "Scenario sim = Some sc"
    and "TrackingController ac = Callsign sc"
    and "Handoffs sim cs = Some t" and "now > t"
    and "distinct ks" and "set ks = dom (Handoffs sim)"
    and "\<forall>c a. Aircraft sim c = Some a \<longrightarrow> FlightPlan a \<noteq> None"
  shows "\<exists>sim1 sim2 ac2.
           Sim_CancelHandoff sim cs = Inr sim1 \<and> Handoffs sim1 = Handoffs sim \<and>
           updateState_handoffs ks (sim1\<lparr>currentTime := now\<rparr>) = Inr sim2 \<and>
           Aircraft sim2 cs = Some ac2 \<and> TrackingController ac2 = [] \<and>
           Handoffs sim2 cs = None"
proof -
  let ?ac1 = "ac\<lparr>OutboundHandoffController := []\<rparr>"
  let ?sim1 = "Post (ModifiedAircraftEvent cs) (sim\<lparr>Aircraft := (Aircraft sim)(cs \<mapsto> ?ac1)\<rparr>)"
  let ?simt = "?sim1\<lparr>currentTime := now\<rparr>"
  have c: "Sim_CancelHandoff sim cs = Inr ?sim1"
    using assms(1-3) by (simp add: Sim_CancelHandoff_def)
  have h: "Handoffs ?sim1 = Handoffs sim"
    by (simp add: Post_def)
  have fp: "\<forall>c a. Aircraft ?simt c = Some a \<longrightarrow> FlightPlan a \<noteq> None"
    using assms(1,8) by (auto simp: Post_def)
  from acceptHandoffs_run [OF assms(6) fp, of now]
  obtain sim2 where run: "acceptHandoffs now ks ?simt = Inr sim2"
    and h2: "Handoffs sim2 = (\<lambda>c. if c \<in> set ks \<and> due now ?simt c then None else Handoffs ?simt c)"
    and a2: "Aircraft sim2 = (\<lambda>c. if c \<in> set ks \<and> due now ?simt c
                                 then map_option accepted (Aircraft ?simt c) else Aircraft ?simt c)"
    by blast
  have cs: "cs \<in> set ks"
    using assms(4,7) by auto
  have d: "due now ?simt cs"
    using assms(4,5) by (simp add: due_def Post_def)
  have "Aircraft sim2 cs = Some (accepted ?ac1)"
    using cs d by (simp add: a2 Post_def)
  moreover have "TrackingController (accepted ?ac1) = []"
    by (simp add: accepted_def)
  moreover have "Handoffs sim2 cs = None"
    using cs d by (simp add: h2)
  moreover have "updateState_handoffs ks ?simt = Inr sim2"
    using run by (simp add: updateState_handoffs_def Sim_CurrentTime_def Post_def)
  ultimately show ?thesis
    using c h by blast
qed

theorem cancelled_handoff_expires_witness:
  "\<exists>sim1 sim2 ac2.
     Sim_CancelHandoff sim_h ''AAL123'' = Inr sim1 \<and> Handoffs sim1 = Handoffs sim_h \<and>
     updateState_handoffs [''AAL123'', ''N5GX''] (sim1\<lparr>currentTime := 1001 * Second\<rparr>) = Inr sim2 \<and>
     Aircraft sim2 ''AAL123'' = Some ac2 \<and> TrackingController ac2 = [] \<and>
     Handoffs sim2 ''AAL123'' = None"
proof -
  have a: "Aircraft sim_h ''AAL123'' = Some (ac_AAL123\<lparr>OutboundHandoffController := ''NY_CTR''\<rparr>)"
    by (simp add: sim_h_def)
  have s: "Scenario sim_h = Some \<lparr>Callsign = ''JFK_APP'', Controllers = [''JFK_APP'', ''NY_CTR'']\<rparr>"
    by (simp add: sim_h_def sim0_def)
  have t: "TrackingController (ac_AAL123\<lparr>OutboundHandoffController := ''NY_CTR''\<rparr>)
             = Callsign \<lparr>Callsign = ''JFK_APP'', Controllers = [''JFK_APP'', ''NY_CTR'']\<rparr>"
    by (simp add: ac_AAL123_def)
  have h: "Handoffs sim_h ''AAL123'' = Some (995 * Second)"
    by (simp add: sim_h_def)
  have l: "1001 * Second > 995 * Second"
    by (simp add: Second_def)
  have d: "distinct [''AAL123'', ''N5GX'']"
    by simp
  have k: "set [''AAL123'', ''N5GX''] = dom (Handoffs sim_h)"
    by (auto simp: sim_h_def split: if_splits)
  have f: "\<forall>c a. Aircraft sim_h c = Some a \<longrightarrow> FlightPlan a \<noteq> None"
    by (auto simp: sim_h_def ac_AAL123_def ac_N5GX_def split: if_splits)
  show ?thesis
    using cancelled_handoff_expires [OF a s t h l d k f]
    by simp
qed

end
